theory Spec2Isabelle
  imports Complex_Main
begin

section \<open>Tensors, errors and the numeric idealisation\<close>

text \<open>
  The embedding follows \<^verbatim>\<open>src/code/SgCG.py\<close>. Tensor entries (float32 in the
  source) are idealised as real numbers: rounding and overflow are outside the model.
  The index arithmetic of the mask resize, which the library does in single
  precision, is modelled with its rounding.
  A division whose divisor is zero has no real value; the source computes an
  \<^verbatim>\<open>inf\<close> or \<^verbatim>\<open>nan\<close> there without raising, and the model returns the marker
  \<open>NonFinite\<close> instead of a number. The other constructors of \<open>error\<close> are the
  exceptions of the source and of the tensor library it calls.

  A tensor is its shape and its entries in row-major (contiguous) order, together
  with the autograd flag the source asserts on. A well-formed tensor has as many
  entries as its shape says.
\<close>

datatype error = AssertionError | ValueError | RuntimeError | IndexError | NonFinite

record 'a tensor =
  shape :: "nat list"
  data :: "'a list"
  requires_grad :: bool

definition wf_tensor :: "'a tensor \<Rightarrow> bool" where
  "wf_tensor t \<longleftrightarrow> length (data t) = prod_list (shape t)"

text \<open>A zero-dimensional tensor holding one number, without gradient.\<close>

definition scalar :: "real \<Rightarrow> real tensor" where
  "scalar x = \<lparr>shape = [], data = [x], requires_grad = False\<rparr>"

subsection \<open>Broadcasting of two shapes of equal rank\<close>

text \<open>
  \<^verbatim>\<open>loss * weight\<close> broadcasts: two dimensions are compatible when they are equal
  or one of them is 1. Only shapes of equal rank reach the product in
  \<^verbatim>\<open>weight_reduce_loss\<close> (the assertion on \<^verbatim>\<open>dim()\<close> comes first).
\<close>

fun broadcast_shape :: "nat list \<Rightarrow> nat list \<Rightarrow> nat list option" where
  "broadcast_shape [] [] = Some []"
| "broadcast_shape (a # as) (b # bs) =
     (if a = b \<or> b = 1 then map_option ((#) a) (broadcast_shape as bs)
      else if a = 1 then map_option ((#) b) (broadcast_shape as bs)
      else None)"
| "broadcast_shape _ _ = None"

text \<open>
  \<open>expand s t xs\<close> repeats the entries \<open>xs\<close> of a tensor of shape \<open>s\<close> along
  every dimension where \<open>s\<close> has 1 and the target \<open>t\<close> has more.
\<close>

fun expand :: "nat list \<Rightarrow> nat list \<Rightarrow> 'a list \<Rightarrow> 'a list" where
  "expand (a # as) (t # ts) xs =
     (let n = prod_list as;
          chunks = map (\<lambda>i. expand as ts (take n (drop (i * n) xs))) [0..<a]
      in if a = t then concat chunks else concat (replicate t (concat chunks)))"
| "expand _ _ xs = xs"

definition tmul :: "real tensor \<Rightarrow> real tensor \<Rightarrow> error + real tensor" where
  "tmul l w =
     (case broadcast_shape (shape l) (shape w) of
        None \<Rightarrow> Inl RuntimeError
      | Some t \<Rightarrow>
          Inr \<lparr>shape = t,
               data = map2 (*) (expand (shape l) t (data l)) (expand (shape w) t (data w)),
               requires_grad = (requires_grad l \<or> requires_grad w)\<rparr>)"

text \<open>\<^verbatim>\<open>loss.sum()\<close> and \<^verbatim>\<open>loss.mean()\<close>: zero-dimensional results over all entries.\<close>

definition tsum :: "real tensor \<Rightarrow> real tensor" where
  "tsum t = \<lparr>shape = [], data = [sum_list (data t)], requires_grad = requires_grad t\<rparr>"

definition tdiv :: "real tensor \<Rightarrow> real \<Rightarrow> error + real tensor" where
  "tdiv t d = (if d = 0 then Inl NonFinite else Inr (t\<lparr>data := map (\<lambda>x. x / d) (data t)\<rparr>))"

definition tmean :: "real tensor \<Rightarrow> error + real tensor" where
  "tmean t = tdiv (tsum t) (real (length (data t)))"

section \<open>Weighted reduction\<close>

text \<open>
  \<^verbatim>\<open>F._Reduction.get_enum\<close> of the tensor library: none is 0, mean (and the
  deprecated elementwise_mean) is 1, sum is 2, anything else raises ValueError.
\<close>

datatype reduction_enum = Enum0 | Enum1 | Enum2

definition get_enum :: "string \<Rightarrow> error + reduction_enum" where
  "get_enum reduction =
     (if reduction = ''none'' then Inr Enum0
      else if reduction = ''mean'' then Inr Enum1
      else if reduction = ''elementwise_mean'' then Inr Enum1
      else if reduction = ''sum'' then Inr Enum2
      else Inl ValueError)"

definition reduce_loss :: "real tensor \<Rightarrow> string \<Rightarrow> error + real tensor" where
  "reduce_loss loss reduction =
     (case get_enum reduction of
        Inl e \<Rightarrow> Inl e
      | Inr Enum0 \<Rightarrow> Inr loss
      | Inr Enum1 \<Rightarrow> tmean loss
      | Inr Enum2 \<Rightarrow> Inr (tsum loss))"

text \<open>
  Lines 83 to 87 of the source: the two assertions on the weight, then the
  broadcasting product.
\<close>

definition apply_weight :: "real tensor \<Rightarrow> real tensor option \<Rightarrow> error + real tensor" where
  "apply_weight loss weight =
     (case weight of
        None \<Rightarrow> Inr loss
      | Some w \<Rightarrow>
          if length (shape w) \<noteq> length (shape loss) then Inl AssertionError
          else if length (shape w) > 1
                  \<and> \<not> (shape w ! 1 = 1 \<or> shape w ! 1 = shape loss ! 1) then Inl AssertionError
          else tmul loss w)"

definition weight_reduce_loss ::
  "real tensor \<Rightarrow> real tensor option \<Rightarrow> string \<Rightarrow> real option \<Rightarrow> error + real tensor" where
  "weight_reduce_loss loss weight reduction avg_factor =
     (case apply_weight loss weight of
        Inl e \<Rightarrow> Inl e
      | Inr wloss \<Rightarrow>
          (case avg_factor of
             None \<Rightarrow> reduce_loss wloss reduction
           | Some af \<Rightarrow>
               if reduction = ''mean'' then tdiv (tsum wloss) af
               else if reduction \<noteq> ''none'' then Inl ValueError
               else Inr wloss))"

text \<open>
  The contract on the weight in the words of the specification: no weight leaves the
  loss as it is; a weight has the rank of the loss, its column count is 1 or the
  loss's when it has more than one dimension, and the weighted loss is the
  broadcast product.
\<close>

definition is_weighted_loss :: "real tensor \<Rightarrow> real tensor option \<Rightarrow> real tensor \<Rightarrow> bool" where
  "is_weighted_loss loss weight wl \<longleftrightarrow>
     (case weight of
        None \<Rightarrow> wl = loss
      | Some w \<Rightarrow>
          length (shape w) = length (shape loss)
          \<and> (1 < length (shape w) \<longrightarrow> shape w ! 1 = 1 \<or> shape w ! 1 = shape loss ! 1)
          \<and> tmul loss w = Inr wl)"

text \<open>The example of the specification: loss [1, 2, 3] with weight [1, 0, 1].\<close>

definition ex_loss :: "real tensor" where
  "ex_loss = \<lparr>shape = [3], data = [1, 2, 3], requires_grad = False\<rparr>"

definition ex_weight :: "real tensor" where
  "ex_weight = \<lparr>shape = [3], data = [1, 0, 1], requires_grad = False\<rparr>"

section \<open>Feature and mask alignment\<close>

text \<open>
  A two-dimensional float tensor (aligned features, prototype means, covariances,
  bank entries) is kept as its list of rows; the column count is a field of its own,
  since a tensor with no row still has one.
\<close>

record matrix =
  ncols :: nat
  mrows :: "real list list"
  mgrad :: bool

definition wf_matrix :: "matrix \<Rightarrow> bool" where
  "wf_matrix m \<longleftrightarrow> (\<forall>r \<in> set (mrows m). length r = ncols m)"

text \<open>The value and the first index of the greatest entry (\<^verbatim>\<open>torch.max\<close> along a dimension).\<close>

fun max_dim :: "'a::linorder list \<Rightarrow> 'a \<times> nat" where
  "max_dim [] = (undefined, 0)"
| "max_dim [x] = (x, 0)"
| "max_dim (x # xs) = (let (m, k) = max_dim xs in if m \<le> x then (x, 0) else (m, Suc k))"

text \<open>
  The entries of a three-dimensional array of extent (B, H, W) in row-major order,
  entry (b, i, j) being \<open>f b i j\<close>.
\<close>

definition grid3 :: "nat \<Rightarrow> nat \<Rightarrow> nat \<Rightarrow> (nat \<Rightarrow> nat \<Rightarrow> nat \<Rightarrow> 'a) \<Rightarrow> 'a list" where
  "grid3 B H W f =
     concat (map (\<lambda>b. concat (map (\<lambda>i. map (\<lambda>j. f b i j) [0..<W]) [0..<H])) [0..<B])"

text \<open>\<^verbatim>\<open>shape[-2:]\<close>: the last two dimensions (fewer when the rank is below 2).\<close>

definition last2 :: "nat list \<Rightarrow> nat list" where
  "last2 s = drop (length s - 2) s"

text \<open>
  The nearest-neighbour kernel computes its source index in single precision. A
  non-negative single-precision number is kept as a significand and a binary
  exponent, \<open>(m, k)\<close> standing for \<open>m * 2 ^ k\<close>; \<open>round_f32 a b\<close> is the quotient
  \<open>a / b\<close> of two integers (\<open>a\<close> not negative, \<open>b\<close> positive) rounded to 24
  significant bits, to nearest and ties to even; \<open>bits n\<close> is the number of binary
  digits of \<open>n\<close>. The sizes and labels of a mask are far inside the exponent range
  of the format, which is not modelled.
\<close>

function bits :: "int \<Rightarrow> int" where
  "bits n = (if n \<le> 0 then 0 else 1 + bits (n div 2))"
  by pat_completeness auto
termination by (relation "measure nat") auto

declare bits.simps [simp del]

definition round_f32 :: "int \<Rightarrow> int \<Rightarrow> int \<times> int" where
  "round_f32 a b =
     (let d = bits a - bits b;
          l = (if b * 2 ^ nat d \<le> a * 2 ^ nat (- d) then d else d - 1);
          k = l - 23;
          n = a * 2 ^ nat (- k);
          q = b * 2 ^ nat k;
          m = n div q;
          r = n mod q
      in (if q < 2 * r \<or> (2 * r = q \<and> odd m) then m + 1 else m, k))"

definition f32_of_int :: "int \<Rightarrow> int \<times> int" where
  "f32_of_int n = round_f32 n 1"

definition f32_div :: "int \<times> int \<Rightarrow> int \<times> int \<Rightarrow> int \<times> int" where
  "f32_div x y =
     (case (x, y) of
        ((m1, k1), (m2, k2)) \<Rightarrow> round_f32 (m1 * 2 ^ nat (k1 - k2)) (m2 * 2 ^ nat (k2 - k1)))"

definition f32_mul :: "int \<times> int \<Rightarrow> int \<times> int \<Rightarrow> int \<times> int" where
  "f32_mul x y =
     (case (x, y) of
        ((m1, k1), (m2, k2)) \<Rightarrow>
          round_f32 (m1 * m2 * 2 ^ nat (k1 + k2)) (2 ^ nat (- (k1 + k2))))"

definition floor_f32 :: "int \<times> int \<Rightarrow> int" where
  "floor_f32 x = (case x of (m, k) \<Rightarrow> m * 2 ^ nat k div 2 ^ nat (- k))"

text \<open>
  The library's \<^verbatim>\<open>nearest_idx\<close>: the output index itself for equal sizes, its half
  for a doubled size, and otherwise
  \<^verbatim>\<open>min(floorf(dst_index * scale), input_size - 1)\<close> with the single-precision
  \<^verbatim>\<open>scale = (float) input_size / output_size\<close>. The rounding can take the index one
  below the exact quotient: from 26 columns to 22, output column 11 reads input
  column 12.
\<close>

definition nearest_idx :: "nat \<Rightarrow> nat \<Rightarrow> nat \<Rightarrow> nat" where
  "nearest_idx output_index input_size output_size =
     (if output_size = input_size then output_index
      else if output_size = 2 * input_size then output_index div 2
      else
        (let scale = f32_div (f32_of_int (int input_size)) (f32_of_int (int output_size))
         in min (nat (floor_f32 (f32_mul (f32_of_int (int output_index)) scale)))
                (input_size - 1)))"

text \<open>
  One label after \<^verbatim>\<open>mask.float()\<close> and \<^verbatim>\<open>.long()\<close>: the nearest single-precision
  number, which is the label itself up to \<open>2 ^ 24\<close> in absolute value.
\<close>

definition label_f32 :: "int \<Rightarrow> int" where
  "label_f32 v = sgn v * floor_f32 (f32_of_int \<bar>v\<bar>)"

text \<open>
  \<^verbatim>\<open>F.interpolate(mask.float(), size, mode='nearest').long()\<close> on a four-dimensional
  mask: output cell (i, j) reads input cell (\<open>nearest_idx i h H\<close>,
  \<open>nearest_idx j w W\<close>) of the same plane \<open>q\<close> (batch element and channel together,
  \<open>b * c\<close> planes). The library rejects a mask that is not four-dimensional for a
  size of two, and empty spatial or channel dimensions.
\<close>

definition interpolate_nearest :: "int tensor \<Rightarrow> nat list \<Rightarrow> error + int tensor" where
  "interpolate_nearest m sz =
     (case (shape m, sz) of
        ([b, c, h, w], [H, W]) \<Rightarrow>
          if c = 0 \<or> h = 0 \<or> w = 0 \<or> H = 0 \<or> W = 0 then Inl RuntimeError
          else
            (let mask_float = map label_f32 (data m)
             in Inr \<lparr>shape = [b, c, H, W],
                      data = grid3 (b * c) H W
                               (\<lambda>q i j. mask_float
                                  ! ((q * h + nearest_idx i h H) * w + nearest_idx j w W)),
                      requires_grad = False\<rparr>)
      | _ \<Rightarrow> Inl ValueError)"

text \<open>\<^verbatim>\<open>mask.argmax(dim=1)\<close> on a mask of shape (b, c, h, w): the result has shape (b, h, w).\<close>

definition argmax_dim1 :: "int tensor \<Rightarrow> int tensor" where
  "argmax_dim1 m =
     (case shape m of
        [b, c, h, w] \<Rightarrow>
          \<lparr>shape = [b, h, w],
           data = grid3 b h w (\<lambda>bi i j.
                    int (snd (max_dim (map (\<lambda>k. data m ! (((bi * c + k) * h + i) * w + j)) [0..<c])))),
           requires_grad = False\<rparr>
      | _ \<Rightarrow> m)"

text \<open>
  \<^verbatim>\<open>feat.permute(0, 2, 3, 1).contiguous().view(-1, channels)\<close>: one row per token
  (batch, then row, then column of the map), holding the token's channels.
\<close>

definition tokens :: "nat \<Rightarrow> nat \<Rightarrow> nat \<Rightarrow> nat \<Rightarrow> 'a list \<Rightarrow> 'a list list" where
  "tokens B C H W xs =
     grid3 B H W (\<lambda>b h w. map (\<lambda>c. xs ! (((b * C + c) * H + h) * W + w)) [0..<C])"

text \<open>Indexing by a boolean keep-mask: \<^verbatim>\<open>x[msk]\<close>.\<close>

definition select :: "bool list \<Rightarrow> 'a list \<Rightarrow> 'a list" where
  "select msk xs = map snd (filter fst (zip msk xs))"

text \<open>
  The arguments \<^verbatim>\<open>use_avg_pool\<close>, \<^verbatim>\<open>scale_min_ratio\<close> and \<^verbatim>\<open>num_classes\<close> of
  the source are not read by its body and are left out. A view with \<^verbatim>\<open>-1\<close> and a
  zero channel count is rejected by the library. The mask argument is written
  \<open>mask0\<close>, the name \<open>mask\<close> being a constant of the logic.
\<close>

definition contrast_preparations ::
  "real tensor \<Rightarrow> int tensor \<Rightarrow> int \<Rightarrow> error + (matrix \<times> int tensor)" where
  "contrast_preparations feat mask0 ignore_index =
     (case (if last2 (shape mask0) \<noteq> last2 (shape feat)
            then interpolate_nearest mask0 (last2 (shape feat)) else Inr mask0) of
        Inl e \<Rightarrow> Inl e
      | Inr mask1 \<Rightarrow>
          (let mask2 = (if length (shape mask1) = 4 \<and> shape mask1 ! 1 > 1
                        then argmax_dim1 mask1 else mask1)
           in case shape feat of
                [batch_size, channels, height, width] \<Rightarrow>
                  if channels = 0 then Inl RuntimeError
                  else
                    (let feat2 = tokens batch_size channels height width (data feat);
                         mask3 = data mask2
                     in if length feat2 \<noteq> length mask3 then Inl AssertionError
                        else
                          (let msk = map (\<lambda>v. v \<noteq> ignore_index) mask3
                           in Inr (\<lparr>ncols = channels, mrows = select msk feat2,
                                     mgrad = requires_grad feat\<rparr>,
                                   \<lparr>shape = [length (select msk mask3)],
                                     data = select msk mask3,
                                     requires_grad = requires_grad mask2\<rparr>)))
              | _ \<Rightarrow> Inl ValueError))"

text \<open>The example of the specification: four tokens with labels [0, 1, 255, 2].\<close>

definition ex_feat :: "real tensor" where
  "ex_feat = \<lparr>shape = [1, 1, 2, 2], data = [10, 11, 12, 13], requires_grad = True\<rparr>"

definition ex_mask :: "int tensor" where
  "ex_mask = \<lparr>shape = [1, 1, 2, 2], data = [0, 1, 255, 2], requires_grad = False\<rparr>"

section \<open>Label downscaling\<close>

text \<open>
  \<^verbatim>\<open>F.one_hot\<close> at position \<open>p\<close> of the flattened labels, channel \<open>k\<close>; and one
  output cell of \<^verbatim>\<open>F.avg_pool2d\<close> with kernel and stride \<open>s\<close> on a plane \<open>f\<close> of
  batch element \<open>b\<close> of a (h, w) map: the mean of the window of rows
  \<open>i * s ..< i * s + s\<close> and columns \<open>j * s ..< j * s + s\<close>.
\<close>

definition one_hot :: "int list \<Rightarrow> nat \<Rightarrow> nat \<Rightarrow> real" where
  "one_hot out p k = (if out ! p = int k then 1 else 0)"

definition avg_pool2d_cell ::
  "nat \<Rightarrow> nat \<Rightarrow> nat \<Rightarrow> (nat \<Rightarrow> real) \<Rightarrow> nat \<Rightarrow> nat \<Rightarrow> nat \<Rightarrow> real" where
  "avg_pool2d_cell h w s f b i j =
     sum_list (concat (map (\<lambda>di. map (\<lambda>dj. f ((b * h + (i * s + di)) * w + (j * s + dj)))
                                  [0..<s]) [0..<s]))
       / real (s * s)"

text \<open>
  The scale factor is an integer of the source (the assertion rejects values below
  1); the class count is a natural number. \<^verbatim>\<open>F.one_hot\<close> raises on a label below
  0 or above the placeholder, and \<^verbatim>\<open>F.avg_pool2d\<close> raises when the map is smaller
  than the window (its output would be empty). Unpacking a shape that is not
  four-dimensional raises ValueError. \<open>ratio_cell\<close> is one output cell of lines
  166 to 169: the pooled one-hot channels, their greatest value and its first index
  (\<^verbatim>\<open>torch.max\<close> along the channels), and the two resets to the ignore value; the
  placeholder \<^verbatim>\<open>ignore_substitute\<close> is \<open>n_classes\<close>.
\<close>

definition ratio_cell ::
  "nat \<Rightarrow> nat \<Rightarrow> nat \<Rightarrow> int list \<Rightarrow> real \<Rightarrow> nat \<Rightarrow> int \<Rightarrow> nat \<Rightarrow> nat \<Rightarrow> nat \<Rightarrow> int" where
  "ratio_cell orig_h orig_w s out min_ratio n_classes ignore_index b i j =
     (let (gt_ratio, out2) =
            max_dim (map (\<lambda>k. avg_pool2d_cell orig_h orig_w s (\<lambda>p. one_hot out p k) b i j)
                       [0..<n_classes + 1]);
          out3 = (if int out2 = int n_classes then ignore_index else int out2)
      in if gt_ratio < min_ratio then ignore_index else out3)"

definition downscale_label_ratio ::
  "int tensor \<Rightarrow> int \<Rightarrow> real \<Rightarrow> nat \<Rightarrow> int \<Rightarrow> error + int tensor" where
  "downscale_label_ratio gt scale_factor min_ratio n_classes ignore_index =
     (if \<not> 1 \<le> scale_factor then Inl AssertionError
      else if scale_factor = 1 then Inr gt
      else
        (case shape gt of
           [bs, orig_c, orig_h, orig_w] \<Rightarrow>
             if orig_c \<noteq> 1 then Inl AssertionError
             else
               (let s = nat scale_factor;
                    trg_h = orig_h div s;
                    trg_w = orig_w div s;
                    ignore_substitute = int n_classes;
                    out = map (\<lambda>v. if v = ignore_index then ignore_substitute else v) (data gt)
                in if \<exists>v \<in> set out. v < 0 \<or> int n_classes + 1 \<le> v then Inl RuntimeError
                   else if orig_h < s \<or> orig_w < s then Inl RuntimeError
                   else
                     Inr \<lparr>shape = [bs, 1, trg_h, trg_w],
                          data = grid3 bs trg_h trg_w
                                   (ratio_cell orig_h orig_w s out min_ratio n_classes ignore_index),
                          requires_grad = False\<rparr>)
         | _ \<Rightarrow> Inl ValueError))"

text \<open>
  For the statements about a cell: the labels of the window of output cell (i, j) of
  batch element \<open>b\<close>, with the ignore value replaced by the placeholder class
  \<open>n_classes\<close> as the source does before counting.
\<close>

definition block :: "nat \<Rightarrow> nat \<Rightarrow> nat \<Rightarrow> 'a list \<Rightarrow> nat \<Rightarrow> nat \<Rightarrow> nat \<Rightarrow> 'a list" where
  "block h w s xs b i j =
     concat (map (\<lambda>di. map (\<lambda>dj. xs ! ((b * h + (i * s + di)) * w + (j * s + dj)))
                      [0..<s]) [0..<s])"

definition substitute :: "int \<Rightarrow> nat \<Rightarrow> int \<Rightarrow> int" where
  "substitute ignore_index n_classes v = (if v = ignore_index then int n_classes else v)"

text \<open>A label map of the data model: every label is a class or the ignore value.\<close>

definition valid_labels :: "nat \<Rightarrow> int \<Rightarrow> int list \<Rightarrow> bool" where
  "valid_labels n_classes ignore_index xs \<longleftrightarrow>
     (\<forall>v \<in> set xs. v = ignore_index \<or> (0 \<le> v \<and> v < int n_classes))"

text \<open>A 2 by 4 map: the left block holds class 1 only, the right block is split between 0 and 2.\<close>

definition ex_gt :: "int tensor" where
  "ex_gt = \<lparr>shape = [1, 1, 2, 4], data = [1, 1, 0, 2, 1, 1, 2, 0], requires_grad = False\<rparr>"

text \<open>Maps whose height or width is not a multiple of the scale factor 2.\<close>

definition ex_thin :: "int tensor" where
  "ex_thin = \<lparr>shape = [1, 1, 1, 4], data = [1, 1, 0, 2], requires_grad = False\<rparr>"

definition ex_odd :: "int tensor" where
  "ex_odd = \<lparr>shape = [1, 1, 3, 5],
      data = [1, 1, 0, 2, 0,  1, 1, 2, 0, 1,  2, 2, 2, 2, 2], requires_grad = False\<rparr>"

definition ex_odd' :: "int tensor" where
  "ex_odd' = \<lparr>shape = [1, 1, 3, 5],
      data = [1, 1, 0, 2, 2,  1, 1, 2, 0, 255,  0, 1, 0, 1, 0], requires_grad = False\<rparr>"

section \<open>The loss variants\<close>

text \<open>
  A fallible step passes its value on or stops at its error; \<open>emap\<close> runs a step
  over a list in order and stops at the first error, as a loop of the source does.
\<close>

definition ebind :: "error + 'a \<Rightarrow> ('a \<Rightarrow> error + 'b) \<Rightarrow> error + 'b" where
  "ebind x f = (case x of Inl e \<Rightarrow> Inl e | Inr v \<Rightarrow> f v)"

fun emap :: "('a \<Rightarrow> error + 'b) \<Rightarrow> 'a list \<Rightarrow> error + 'b list" where
  "emap f [] = Inr []"
| "emap f (x # xs) = ebind (f x) (\<lambda>y. ebind (emap f xs) (\<lambda>ys. Inr (y # ys)))"

subsection \<open>Operations of the tensor library on two-dimensional tensors\<close>

definition dot :: "real list \<Rightarrow> real list \<Rightarrow> real" where
  "dot u v = sum_list (map2 (*) u v)"

text \<open>
  \<^verbatim>\<open>x.mm(y.permute(1, 0).contiguous())\<close> for \<open>x\<close> of shape (N, A) and \<open>y\<close> of shape
  (C, A): entry (n, c) is the dot product of row \<open>n\<close> of \<open>x\<close> and row \<open>c\<close> of \<open>y\<close>; the
  column counts must agree.
\<close>

definition mm_t :: "matrix \<Rightarrow> matrix \<Rightarrow> error + matrix" where
  "mm_t x y =
     (if ncols x \<noteq> ncols y then Inl RuntimeError
      else Inr \<lparr>ncols = length (mrows y),
                mrows = map (\<lambda>r. map (dot r) (mrows y)) (mrows x),
                mgrad = (mgrad x \<or> mgrad y)\<rparr>)"

text \<open>Division of every entry by a number; by zero the entries (if any) are not finite.\<close>

definition mdiv :: "matrix \<Rightarrow> real \<Rightarrow> error + matrix" where
  "mdiv x d =
     (if d = 0 \<and> mrows x \<noteq> [] \<and> ncols x \<noteq> 0 then Inl NonFinite
      else Inr (x\<lparr>mrows := map (map (\<lambda>v. v / d)) (mrows x)\<rparr>))"

definition mscale :: "matrix \<Rightarrow> real \<Rightarrow> matrix" where
  "mscale x c = x\<lparr>mrows := map (map (\<lambda>v. v * c)) (mrows x)\<rparr>"

definition mpow2 :: "matrix \<Rightarrow> matrix" where
  "mpow2 x = x\<lparr>mrows := map (map (\<lambda>v. v ^ 2)) (mrows x)\<rparr>"

text \<open>
  The sum of two tensors of shapes (N, C1) and (N, C2) broadcasts along the columns:
  the counts agree or one of them is 1.
\<close>

definition madd :: "matrix \<Rightarrow> matrix \<Rightarrow> error + matrix" where
  "madd x y =
     (if ncols x = ncols y then
        Inr \<lparr>ncols = ncols x, mrows = map2 (map2 (+)) (mrows x) (mrows y),
             mgrad = (mgrad x \<or> mgrad y)\<rparr>
      else if ncols x = 1 then
        Inr \<lparr>ncols = ncols y, mrows = map2 (\<lambda>r q. map (\<lambda>v. hd r + v) q) (mrows x) (mrows y),
             mgrad = (mgrad x \<or> mgrad y)\<rparr>
      else if ncols y = 1 then
        Inr \<lparr>ncols = ncols x, mrows = map2 (\<lambda>r q. map (\<lambda>v. v + hd q) r) (mrows x) (mrows y),
             mgrad = (mgrad x \<or> mgrad y)\<rparr>
      else Inl RuntimeError)"

text \<open>\<^verbatim>\<open>covariance[mask]\<close>: one row per label; an index outside \<open>-C ..< C\<close> raises.\<close>

definition index_rows :: "matrix \<Rightarrow> int list \<Rightarrow> error + real list list" where
  "index_rows x labels =
     emap (\<lambda>t. if 0 \<le> t \<and> t < int (length (mrows x)) then Inr (mrows x ! nat t)
                else if - int (length (mrows x)) \<le> t \<and> t < 0
                  then Inr (mrows x ! nat (int (length (mrows x)) + t))
                else Inl IndexError) labels"

text \<open>
  \<^verbatim>\<open>F.cross_entropy(logits, target, weight=class_weight, reduction='none',
  ignore_index=ignore_index)\<close>: for a token of target \<open>t\<close> and logits \<open>x\<close> the loss
  is \<open>- w t * ln (exp (x t) / (\<Sum>j. exp (x j)))\<close>, and 0 for the ignore index. A
  class-weight vector must have one entry per logit column; a target that is neither
  the ignore index nor a column raises.
\<close>

definition cross_entropy ::
  "matrix \<Rightarrow> int list \<Rightarrow> real list option \<Rightarrow> int \<Rightarrow> error + real list" where
  "cross_entropy logits target class_weight ignore_index =
     (if (case class_weight of None \<Rightarrow> False | Some cw \<Rightarrow> length cw \<noteq> ncols logits)
      then Inl RuntimeError
      else if \<exists>t \<in> set target. t \<noteq> ignore_index \<and> (t < 0 \<or> int (ncols logits) \<le> t)
      then Inl IndexError
      else Inr (map2 (\<lambda>x t. if t = ignore_index then 0
                             else - (case class_weight of None \<Rightarrow> 1 | Some cw \<Rightarrow> cw ! nat t)
                                    * ln (exp (x ! nat t) / sum_list (map exp x)))
                  (mrows logits) target))"

text \<open>\<^verbatim>\<open>torch.softmax(x, dim=1)\<close> on one row, and \<^verbatim>\<open>torch.mean(feat, 0)\<close>.\<close>

definition softmax :: "real list \<Rightarrow> real list" where
  "softmax x = map (\<lambda>v. exp v / sum_list (map exp x)) x"

definition col_mean :: "matrix \<Rightarrow> real list" where
  "col_mean x =
     map (\<lambda>a. sum_list (map (\<lambda>r. r ! a) (mrows x)) / real (length (mrows x))) [0..<ncols x]"

text \<open>
  The early returns of the source (lines 212, 254, 315 and 389) are
  \<^verbatim>\<open>torch.tensor(0., requires_grad=True).cuda()\<close>: a zero scalar, copied to the CUDA
  device. The copy initialises the CUDA runtime: a build of the library without CUDA
  raises an \<^verbatim>\<open>AssertionError\<close> (\<^verbatim>\<open>Torch not compiled with CUDA enabled\<close>), a build
  with CUDA on a host without a usable device raises a \<^verbatim>\<open>RuntimeError\<close>. No other
  line of the source names a device: every other tensor stays on the device of the
  features. The state of the host is an argument of the functions that make the call.
\<close>

datatype host = CudaReady | CudaNotCompiled | CudaNoDevice

definition cuda :: "host \<Rightarrow> 'a \<Rightarrow> error + 'a" where
  "cuda host x =
     (case host of
        CudaReady \<Rightarrow> Inr x
      | CudaNotCompiled \<Rightarrow> Inl AssertionError
      | CudaNoDevice \<Rightarrow> Inl RuntimeError)"

definition zero_loss :: "real tensor" where
  "zero_loss = \<lparr>shape = [], data = [0], requires_grad = True\<rparr>"

text \<open>The in-place addition of a number, and the tensor of a list of per-token losses.\<close>

definition tadd_scalar :: "real tensor \<Rightarrow> real \<Rightarrow> real tensor" where
  "tadd_scalar t c = t\<lparr>data := map (\<lambda>v. v + c) (data t)\<rparr>"

definition vector :: "real list \<Rightarrow> real tensor" where
  "vector xs = \<lparr>shape = [length xs], data = xs, requires_grad = True\<rparr>"

subsection \<open>The prototype regulariser\<close>

text \<open>
  \<^verbatim>\<open>proto_reg\<close>: the assertions, the early return on no token (the zero scalar
  on the CUDA device; the result is modelled by its value), then the sum of the
  logarithms of the softmax of the mean feature's similarities, divided by
  \<^verbatim>\<open>contrast_norm\<close>. The parameters \<^verbatim>\<open>mean\<close> and \<^verbatim>\<open>contrast_norm\<close> default to
  \<^verbatim>\<open>None\<close> in the source.
\<close>

definition proto_reg :: "host \<Rightarrow> matrix \<Rightarrow> matrix option \<Rightarrow> real \<Rightarrow> real option \<Rightarrow> error + real" where
  "proto_reg host feat mean contrast_temp contrast_norm =
     (case mean of
        None \<Rightarrow> Inl AssertionError
      | Some mean1 \<Rightarrow>
          (case contrast_norm of
             None \<Rightarrow> Inl AssertionError
           | Some norm1 \<Rightarrow>
               if mgrad mean1 then Inl AssertionError
               else if \<not> mgrad feat then Inl AssertionError
               else if mrows feat = [] then cuda host 0
               else
                 (let mean_feat = \<lparr>ncols = ncols feat, mrows = [col_mean feat], mgrad = True\<rparr>
                  in ebind (mm_t mean_feat mean1) (\<lambda>sim.
                     ebind (mdiv sim contrast_temp) (\<lambda>proto_sim.
                       if norm1 = 0 then Inl NonFinite
                       else Inr (sum_list (map (\<lambda>r. sum_list (map ln (softmax r)))
                                            (mrows proto_sim)) / norm1))))))"

text \<open>
  The last step of the three variants (lines 275 to 277, 349 to 351 and 420 to 422):
  with a positive \<^verbatim>\<open>reg_weight\<close> the regulariser, normalised by
  \<^verbatim>\<open>num_classes * np.log(num_classes)\<close>, is added in place. For zero classes the
  source's norm is nan and for one class it is 0; both divisions are not finite, and
  the model's norm is 0 in both cases.
\<close>

definition add_regularizer ::
  "host \<Rightarrow> real tensor \<Rightarrow> matrix \<Rightarrow> matrix option \<Rightarrow> real \<Rightarrow> nat \<Rightarrow> real \<Rightarrow> error + real tensor" where
  "add_regularizer host loss feat mean contrast_temp num_classes reg_weight =
     (if reg_weight > 0 then
        (let contrast_norm = real num_classes * ln (real num_classes)
         in ebind (proto_reg host feat mean contrast_temp (Some contrast_norm)) (\<lambda>r.
              Inr (tadd_scalar loss (reg_weight * r))))
      else Inr loss)"

subsection \<open>Prototype-contrastive loss\<close>

text \<open>
  The variants are modelled for the default \<^verbatim>\<open>index = -1\<close>, where \<^verbatim>\<open>feat\<close> is a
  tensor; with an index the source first selects the entries of its list arguments
  and continues with the same body. Lines 256 to 267: the per-token classification
  loss.
\<close>

definition proto_loss ::
  "matrix \<Rightarrow> int list \<Rightarrow> matrix \<Rightarrow> real \<Rightarrow> real list option \<Rightarrow> int \<Rightarrow> error + real list" where
  "proto_loss feat labels mean contrast_temp class_weight ignore_index =
     ebind (mm_t feat mean) (\<lambda>sim.
     ebind (mdiv sim contrast_temp) (\<lambda>proto_sim.
       cross_entropy proto_sim labels class_weight ignore_index))"

definition proto_contrastive ::
  "host \<Rightarrow> real tensor \<Rightarrow> int tensor \<Rightarrow> matrix option \<Rightarrow> real \<Rightarrow> nat \<Rightarrow> real tensor option
     \<Rightarrow> real list option \<Rightarrow> string \<Rightarrow> real option \<Rightarrow> real \<Rightarrow> int \<Rightarrow> error + real tensor" where
  "proto_contrastive host feat mask0 mean contrast_temp num_classes weight class_weight reduction
       avg_factor reg_weight ignore_index =
     ebind (contrast_preparations feat mask0 ignore_index) (\<lambda>(feat1, mask1).
       case mean of
         None \<Rightarrow> Inl AssertionError
       | Some mean1 \<Rightarrow>
           if mgrad mean1 then Inl AssertionError
           else if \<not> mgrad feat1 then Inl AssertionError
           else if requires_grad mask1 then Inl AssertionError
           else if mrows feat1 = [] then cuda host zero_loss
           else
             ebind (proto_loss feat1 (data mask1) mean1 contrast_temp class_weight ignore_index)
               (\<lambda>loss.
             ebind (weight_reduce_loss (vector loss) weight reduction avg_factor) (\<lambda>loss1.
               add_regularizer host loss1 feat1 mean contrast_temp num_classes reg_weight)))"

subsection \<open>Distribution-contrastive loss\<close>

text \<open>
  Lines 317 to 341: the per-token loss. The name \<^verbatim>\<open>covariance\<close> is rebound to the
  scaled covariance on line 320, and the rebound value is the one that line 339
  indexes by the labels.
\<close>

definition dist_loss ::
  "matrix \<Rightarrow> int list \<Rightarrow> matrix \<Rightarrow> matrix \<Rightarrow> real \<Rightarrow> real \<Rightarrow> real list option \<Rightarrow> int
     \<Rightarrow> error + real list" where
  "dist_loss feat labels mean covariance ratio contrast_temp class_weight ignore_index =
     ebind (mm_t feat mean) (\<lambda>temp1.
     ebind (mdiv (mscale covariance ratio) contrast_temp) (\<lambda>covariance1.
     ebind (mm_t (mpow2 feat) covariance1) (\<lambda>sq.
     ebind (madd temp1 (mscale sq (1 / 2))) (\<lambda>logits0.
     ebind (mdiv logits0 contrast_temp) (\<lambda>logits.
     ebind (cross_entropy logits labels class_weight ignore_index) (\<lambda>ce_loss.
     ebind (index_rows covariance1 labels) (\<lambda>selected.
       if contrast_temp = 0 then Inl NonFinite
       else
         (let jcl_loss = map2 (\<lambda>f c. 1 / 2 * sum_list (map2 (*) (map (\<lambda>v. v ^ 2) f) c)
                                         / contrast_temp)
                           (mrows feat) selected
          in Inr (map2 (+) ce_loss jcl_loss)))))))))"

definition dist_contrastive ::
  "host \<Rightarrow> real tensor \<Rightarrow> int tensor \<Rightarrow> matrix option \<Rightarrow> matrix option \<Rightarrow> real \<Rightarrow> real \<Rightarrow> nat
     \<Rightarrow> real tensor option \<Rightarrow> real list option \<Rightarrow> string \<Rightarrow> real option \<Rightarrow> real \<Rightarrow> int
     \<Rightarrow> error + real tensor" where
  "dist_contrastive host feat mask0 mean covariance ratio contrast_temp num_classes weight
       class_weight reduction avg_factor reg_weight ignore_index =
     ebind (contrast_preparations feat mask0 ignore_index) (\<lambda>(feat1, mask1).
       case mean of
         None \<Rightarrow> Inl AssertionError
       | Some mean1 \<Rightarrow>
           (case covariance of
              None \<Rightarrow> Inl AssertionError
            | Some covariance0 \<Rightarrow>
                if mgrad mean1 then Inl AssertionError
                else if mgrad covariance0 then Inl AssertionError
                else if \<not> mgrad feat1 then Inl AssertionError
                else if requires_grad mask1 then Inl AssertionError
                else if mrows feat1 = [] then cuda host zero_loss
                else
                  ebind (dist_loss feat1 (data mask1) mean1 covariance0 ratio contrast_temp
                           class_weight ignore_index) (\<lambda>loss.
                  ebind (weight_reduce_loss (vector loss) weight reduction avg_factor) (\<lambda>loss1.
                    add_regularizer host loss1 feat1 mean contrast_temp num_classes reg_weight))))"

subsection \<open>Bank-contrastive loss\<close>

text \<open>
  The bank holds, for every class, the queue of stored exemplar tensors, each of
  shape (k, A). \<^verbatim>\<open>torch.cat(tensors, dim=0)\<close> raises on an empty list and on
  differing column counts; \<^verbatim>\<open>x.mean(1)\<close> of a tensor without columns is not finite.
\<close>

definition torch_cat0 :: "matrix list \<Rightarrow> error + matrix" where
  "torch_cat0 ms =
     (case ms of
        [] \<Rightarrow> Inl RuntimeError
      | m # rest \<Rightarrow>
          if \<exists>x \<in> set rest. ncols x \<noteq> ncols m then Inl RuntimeError
          else Inr \<lparr>ncols = ncols m, mrows = concat (map mrows ms),
                    mgrad = (\<exists>x \<in> set ms. mgrad x)\<rparr>)"

definition row_mean :: "matrix \<Rightarrow> error + real list" where
  "row_mean x =
     (if ncols x = 0 \<and> mrows x \<noteq> [] then Inl NonFinite
      else Inr (map (\<lambda>r. sum_list r / real (ncols x)) (mrows x)))"

text \<open>
  Lines 398 to 400: the similarities of the tokens of one class to the exemplars of
  class \<open>idx\<close>. Indexing the bank past its end raises.
\<close>

definition bank_sim :: "matrix \<Rightarrow> matrix list list \<Rightarrow> real \<Rightarrow> nat \<Rightarrow> error + matrix" where
  "bank_sim cls_feat bank contrast_temp idx =
     (if length bank \<le> idx then Inl IndexError
      else ebind (torch_cat0 (bank ! idx)) (\<lambda>cls_bank.
           ebind (mm_t cls_feat cls_bank) (\<lambda>sim.
             mdiv sim contrast_temp)))"

text \<open>
  One pass of the inner loop keeps the similarities as the positives (\<open>idx = cls\<close>)
  or appends their row means to the negatives.
\<close>

datatype sim_result = Pos matrix | Neg "real list"

definition negatives :: "sim_result list \<Rightarrow> real list list" where
  "negatives steps = concat (map (\<lambda>r. case r of Pos p \<Rightarrow> [] | Neg m \<Rightarrow> [m]) steps)"

text \<open>
  Lines 394 to 409 for one class. \<^verbatim>\<open>torch.cat(neg, dim=1)\<close> raises when there is
  no negative; the mean over the positives of a token is not finite when the class
  has no exemplar row. The step of \<open>idx = cls\<close> is always \<open>Pos\<close>, so the second
  branch of the case on it is never taken.
\<close>

definition bank_class_loss ::
  "matrix \<Rightarrow> int list \<Rightarrow> matrix list list \<Rightarrow> real \<Rightarrow> nat \<Rightarrow> nat \<Rightarrow> error + real list" where
  "bank_class_loss feat labels bank contrast_temp num_classes cls =
     (let cls_filter = map (\<lambda>t. t = int cls) labels;
          cls_feat = feat\<lparr>mrows := select cls_filter (mrows feat)\<rparr>
      in ebind (emap (\<lambda>idx. ebind (bank_sim cls_feat bank contrast_temp idx) (\<lambda>sim.
                        if idx = cls then Inr (Pos sim)
                        else ebind (row_mean sim) (\<lambda>m. Inr (Neg m))))
                  [0..<num_classes]) (\<lambda>steps.
           case steps ! cls of
             Neg m \<Rightarrow> Inl RuntimeError
           | Pos pos \<Rightarrow>
               (let neg = negatives steps
                in if neg = [] then Inl RuntimeError
                   else if ncols pos = 0 \<and> mrows pos \<noteq> [] then Inl NonFinite
                   else
                     Inr (map (\<lambda>n.
                            (let exp_pos = map exp (mrows pos ! n);
                                 sum_exp_neg = sum_list (map (\<lambda>m. exp (m ! n)) neg);
                                 softmax_term = map (\<lambda>e. e / (e + sum_exp_neg)) exp_pos
                             in - (sum_list (map ln softmax_term) / real (ncols pos))))
                          [0..<length (mrows pos)]))))"

text \<open>Lines 391 to 412: the loop over the classes and the concatenation of its results.\<close>

definition bank_loss ::
  "matrix \<Rightarrow> int list \<Rightarrow> matrix list list \<Rightarrow> real \<Rightarrow> nat \<Rightarrow> error + real list" where
  "bank_loss feat labels bank contrast_temp num_classes =
     ebind (emap (bank_class_loss feat labels bank contrast_temp num_classes) [0..<num_classes])
       (\<lambda>loss. if loss = [] then Inl RuntimeError else Inr (concat loss))"

definition bank_contrastive ::
  "host \<Rightarrow> real tensor \<Rightarrow> int tensor \<Rightarrow> matrix list list option \<Rightarrow> matrix option \<Rightarrow> real \<Rightarrow> nat
     \<Rightarrow> real tensor option \<Rightarrow> string \<Rightarrow> real option \<Rightarrow> real \<Rightarrow> int \<Rightarrow> error + real tensor" where
  "bank_contrastive host feat mask0 bank mean contrast_temp num_classes weight reduction avg_factor
       reg_weight ignore_index =
     ebind (contrast_preparations feat mask0 ignore_index) (\<lambda>(feat1, mask1).
       case bank of
         None \<Rightarrow> Inl AssertionError
       | Some bank1 \<Rightarrow>
           if reg_weight > 0 \<and> (case mean of None \<Rightarrow> True | Some mean1 \<Rightarrow> mgrad mean1)
           then Inl AssertionError
           else if \<not> mgrad feat1 then Inl AssertionError
           else if requires_grad mask1 then Inl AssertionError
           else if mrows feat1 = [] then cuda host zero_loss
           else
             ebind (bank_loss feat1 (data mask1) bank1 contrast_temp num_classes) (\<lambda>loss.
             ebind (weight_reduce_loss (vector loss) weight reduction avg_factor) (\<lambda>loss1.
               add_regularizer host loss1 feat1 mean contrast_temp num_classes reg_weight)))"

text \<open>Example arguments of the loss variants.\<close>

definition ex_ignored :: "int tensor" where
  "ex_ignored = \<lparr>shape = [1, 1, 2, 2], data = [255, 255, 255, 255], requires_grad = False\<rparr>"

definition ex_mean :: "matrix" where
  "ex_mean = \<lparr>ncols = 1, mrows = [[1], [2]], mgrad = False\<rparr>"


definition ex_feat1 :: matrix where
  "ex_feat1 = \<lparr>ncols = 1, mrows = [[10], [11], [13]], mgrad = True\<rparr>"

definition ex_mask1 :: "int tensor" where
  "ex_mask1 = \<lparr>shape = [3], data = [0, 1, 2], requires_grad = False\<rparr>"

subsection \<open>The per-token losses in the words of the specification\<close>

text \<open>
  The logit of a token \<open>f\<close> for a class with mean row \<open>m\<close> and covariance row \<open>s\<close>:
  the first-order term plus half the squared features against the covariance scaled
  by ratio / temperature, the sum divided by the temperature.
\<close>

definition dist_logit :: "real list \<Rightarrow> real list \<Rightarrow> real list \<Rightarrow> real \<Rightarrow> real \<Rightarrow> real" where
  "dist_logit f m s ratio contrast_temp =
     ((\<Sum>a<length f. f ! a * m ! a)
       + 1 / 2 * (\<Sum>a<length f. (f ! a) ^ 2 * (s ! a * ratio / contrast_temp)))
     / contrast_temp"

text \<open>The class-weighted cross-entropy of these logits against the label \<open>y\<close>.\<close>

definition dist_ce ::
  "real list \<Rightarrow> int \<Rightarrow> real list list \<Rightarrow> real list list \<Rightarrow> real \<Rightarrow> real \<Rightarrow> real list option \<Rightarrow> real" where
  "dist_ce f y mean covariance ratio contrast_temp class_weight =
     - (case class_weight of None \<Rightarrow> 1 | Some cw \<Rightarrow> cw ! nat y)
       * ln (exp (dist_logit f (mean ! nat y) (covariance ! nat y) ratio contrast_temp)
             / (\<Sum>c<length mean. exp (dist_logit f (mean ! c) (covariance ! c) ratio contrast_temp)))"

text \<open>
  The per-token loss as claim C1 writes it (correction term with the covariance of
  the true label as given), and as the source computes it (with the scaled one).
\<close>

definition dist_token_claimed ::
  "real list \<Rightarrow> int \<Rightarrow> real list list \<Rightarrow> real list list \<Rightarrow> real \<Rightarrow> real \<Rightarrow> real list option \<Rightarrow> real" where
  "dist_token_claimed f y mean covariance ratio contrast_temp class_weight =
     dist_ce f y mean covariance ratio contrast_temp class_weight
     + 1 / 2 * (\<Sum>a<length f. (f ! a) ^ 2 * (covariance ! nat y ! a)) / contrast_temp"

definition dist_token_loss ::
  "real list \<Rightarrow> int \<Rightarrow> real list list \<Rightarrow> real list list \<Rightarrow> real \<Rightarrow> real \<Rightarrow> real list option \<Rightarrow> real" where
  "dist_token_loss f y mean covariance ratio contrast_temp class_weight =
     dist_ce f y mean covariance ratio contrast_temp class_weight
     + 1 / 2 * (\<Sum>a<length f. (f ! a) ^ 2 * (covariance ! nat y ! a * ratio / contrast_temp))
       / contrast_temp"

text \<open>One token with one channel, two classes.\<close>

definition ex_dfeat :: "real tensor" where
  "ex_dfeat = \<lparr>shape = [1, 1, 1, 1], data = [1], requires_grad = True\<rparr>"

definition ex_dmask :: "int tensor" where
  "ex_dmask = \<lparr>shape = [1, 1, 1, 1], data = [0], requires_grad = False\<rparr>"

definition ex_dmean :: matrix where
  "ex_dmean = \<lparr>ncols = 1, mrows = [[0], [0]], mgrad = False\<rparr>"

definition ex_dcov :: matrix where
  "ex_dcov = \<lparr>ncols = 1, mrows = [[1], [1]], mgrad = False\<rparr>"

text \<open>
  The bank-contrastive loss of one token in the words of the specification: the
  exemplar rows of class \<open>idx\<close>, the temperature-divided dot product, the mean
  similarity to the exemplars of a class, and the mean over the positives of
  \<open>- ln (exp pos / (exp pos + \<Sum> exp neg))\<close>.
\<close>

definition bank_rows :: "matrix list list \<Rightarrow> nat \<Rightarrow> real list list" where
  "bank_rows bank idx = concat (map mrows (bank ! idx))"

definition similarity :: "real list \<Rightarrow> real list \<Rightarrow> real \<Rightarrow> real" where
  "similarity f e contrast_temp = dot f e / contrast_temp"

definition neg_score :: "real list \<Rightarrow> matrix list list \<Rightarrow> real \<Rightarrow> nat \<Rightarrow> real" where
  "neg_score f bank contrast_temp idx =
     sum_list (map (\<lambda>e. similarity f e contrast_temp) (bank_rows bank idx))
       / real (length (bank_rows bank idx))"

definition bank_token_loss :: "real list \<Rightarrow> nat \<Rightarrow> matrix list list \<Rightarrow> nat \<Rightarrow> real \<Rightarrow> real" where
  "bank_token_loss f cls bank num_classes contrast_temp =
     sum_list (map (\<lambda>e. - ln (exp (similarity f e contrast_temp)
                              / (exp (similarity f e contrast_temp)
                                 + sum_list (map (\<lambda>idx. exp (neg_score f bank contrast_temp idx))
                                              (filter (\<lambda>idx. idx \<noteq> cls) [0..<num_classes])))))
                   (bank_rows bank cls))
       / real (length (bank_rows bank cls))"

text \<open>The rows of the tokens labelled \<open>cls\<close>, in their original order.\<close>

definition class_rows :: "real list list \<Rightarrow> int list \<Rightarrow> nat \<Rightarrow> real list list" where
  "class_rows rows labels cls = map fst (filter (\<lambda>(f, y). y = int cls) (zip rows labels))"

text \<open>
  A bank for \<open>num_classes\<close> classes and features of width \<open>A\<close>: every class has a
  queue of well-formed tensors of that width holding at least one exemplar row.
\<close>

definition bank_ok :: "matrix list list \<Rightarrow> nat \<Rightarrow> nat \<Rightarrow> bool" where
  "bank_ok bank num_classes A \<longleftrightarrow>
     num_classes \<le> length bank
     \<and> (\<forall>idx < num_classes. (\<forall>m \<in> set (bank ! idx). ncols m = A \<and> wf_matrix m)
                         \<and> bank_rows bank idx \<noteq> [])"

text \<open>The per-token losses arranged by class.\<close>

definition bank_losses :: "real list list \<Rightarrow> int list \<Rightarrow> matrix list list \<Rightarrow> nat \<Rightarrow> real \<Rightarrow> real list" where
  "bank_losses rows labels bank num_classes contrast_temp =
     concat (map (\<lambda>cls. map (\<lambda>f. bank_token_loss f cls bank num_classes contrast_temp)
                          (class_rows rows labels cls))
               [0..<num_classes])"

text \<open>Banks for one, two and three classes.\<close>

definition ex_exemplar :: matrix where
  "ex_exemplar = \<lparr>ncols = 1, mrows = [[1]], mgrad = False\<rparr>"

definition ex_bank1 :: "matrix list list" where
  "ex_bank1 = [[ex_exemplar]]"

definition ex_bank2 :: "matrix list list" where
  "ex_bank2 = [[ex_exemplar], [ex_exemplar, ex_exemplar]]"

definition ex_bank3 :: "matrix list list" where
  "ex_bank3 = [[ex_exemplar], [ex_exemplar, ex_exemplar], [ex_exemplar]]"

section \<open>Properties of the weighted reduction\<close>

lemma apply_weight_is_weighted:
  "is_weighted_loss loss weight wl \<Longrightarrow> apply_weight loss weight = Inr wl"
  by (auto simp: is_weighted_loss_def apply_weight_def split: option.splits)

lemma concat_chunks:
  "length xs = a * n \<Longrightarrow> concat (map (\<lambda>i. take n (drop (i * n) xs)) [0..<a]) = xs"
proof (induction a arbitrary: xs)
  case 0
  then show ?case by simp
next
  case (Suc a)
  have "length (take (a * n) xs) = a * n" using Suc.prems by simp
  from Suc.IH[OF this]
  have "concat (map (\<lambda>i. take n (drop (i * n) (take (a * n) xs))) [0..<a]) = take (a * n) xs" .
  moreover have "\<And>i. i < a \<Longrightarrow> take n (drop (i * n) (take (a * n) xs)) = take n (drop (i * n) xs)"
  proof -
    fix i assume "i < a"
    then have "Suc i \<le> a" by simp
    then have "Suc i * n \<le> a * n" by (rule mult_le_mono1)
    then have "n \<le> a * n - i * n" by simp
    then show "take n (drop (i * n) (take (a * n) xs)) = take n (drop (i * n) xs)"
      by (simp add: drop_take min_def)
  qed
  then have "map (\<lambda>i. take n (drop (i * n) (take (a * n) xs))) [0..<a]
      = map (\<lambda>i. take n (drop (i * n) xs)) [0..<a]"
    by (intro map_cong) auto
  ultimately have "concat (map (\<lambda>i. take n (drop (i * n) xs)) [0..<a]) = take (a * n) xs"
    by simp
  moreover have "take n (drop (a * n) xs) = drop (a * n) xs" using Suc.prems by simp
  ultimately show ?case by simp
qed

lemma expand_same: "length xs = prod_list s \<Longrightarrow> expand s s xs = xs"
proof (induction s arbitrary: xs)
  case Nil
  then show ?case by simp
next
  case (Cons a s)
  have "\<And>i. i < a \<Longrightarrow> expand s s (take (prod_list s) (drop (i * prod_list s) xs))
      = take (prod_list s) (drop (i * prod_list s) xs)"
  proof -
    fix i assume "i < a"
    then have "Suc i \<le> a" by simp
    then have "Suc i * prod_list s \<le> a * prod_list s" by (rule mult_le_mono1)
    then have "length (take (prod_list s) (drop (i * prod_list s) xs)) = prod_list s"
      using Cons.prems by simp
    then show "expand s s (take (prod_list s) (drop (i * prod_list s) xs))
        = take (prod_list s) (drop (i * prod_list s) xs)"
      by (rule Cons.IH)
  qed
  then have m: "map (\<lambda>i. expand s s (take (prod_list s) (drop (i * prod_list s) xs))) [0..<a]
     = map (\<lambda>i. take (prod_list s) (drop (i * prod_list s) xs)) [0..<a]"
    by (intro map_cong) auto
  have c: "concat (map (\<lambda>i. take (prod_list s) (drop (i * prod_list s) xs)) [0..<a]) = xs"
    using Cons.prems by (intro concat_chunks) simp
  have "expand (a # s) (a # s) xs
      = concat (map (\<lambda>i. expand s s (take (prod_list s) (drop (i * prod_list s) xs))) [0..<a])"
    by (simp add: Let_def)
  also have "\<dots> = xs" unfolding m by (rule c)
  finally show ?case .
qed

lemma broadcast_shape_same: "broadcast_shape s s = Some s"
  by (induction s) auto

text \<open>On two well-formed tensors of one shape the product is entry by entry.\<close>

lemma tmul_same_shape:
  "wf_tensor l \<Longrightarrow> wf_tensor w \<Longrightarrow> shape w = shape l \<Longrightarrow>
   tmul l w = Inr \<lparr>shape = shape l, data = map2 (*) (data l) (data w),
                   requires_grad = (requires_grad l \<or> requires_grad w)\<rparr>"
  by (simp add: tmul_def broadcast_shape_same expand_same wf_tensor_def)

lemma ex_weighted:
  "is_weighted_loss ex_loss (Some ex_weight)
     \<lparr>shape = [3], data = [1, 0, 3], requires_grad = False\<rparr>"
  by (simp add: is_weighted_loss_def ex_loss_def ex_weight_def tmul_same_shape wf_tensor_def)

text \<open>
  Claim C3. With a weight that meets the contract (or none) and no average factor,
  the reduction none returns the weighted loss, mean its arithmetic mean over all
  entries (of an empty tensor there is none: the source yields nan), sum its total;
  with an average factor, mean returns the total divided by the factor. For loss
  [1, 2, 3] and weight [1, 0, 1]: mean is 4/3, none is [1, 0, 3], and mean with
  average factor 2 is 2.
\<close>

theorem weight_reduce_loss_reductions:
  assumes "is_weighted_loss loss weight wl"
  shows "weight_reduce_loss loss weight ''none'' None = Inr wl
    \<and> (data wl \<noteq> [] \<longrightarrow> weight_reduce_loss loss weight ''mean'' None
          = Inr \<lparr>shape = [], data = [sum_list (data wl) / real (length (data wl))],
                 requires_grad = requires_grad wl\<rparr>)
    \<and> (data wl = [] \<longrightarrow> weight_reduce_loss loss weight ''mean'' None = Inl NonFinite)
    \<and> weight_reduce_loss loss weight ''sum'' None
          = Inr \<lparr>shape = [], data = [sum_list (data wl)], requires_grad = requires_grad wl\<rparr>
    \<and> (af \<noteq> 0 \<longrightarrow> weight_reduce_loss loss weight ''mean'' (Some af)
          = Inr \<lparr>shape = [], data = [sum_list (data wl) / af], requires_grad = requires_grad wl\<rparr>)
    \<and> weight_reduce_loss ex_loss (Some ex_weight) ''mean'' None = Inr (scalar (4 / 3))
    \<and> weight_reduce_loss ex_loss (Some ex_weight) ''none'' None
          = Inr \<lparr>shape = [3], data = [1, 0, 3], requires_grad = False\<rparr>
    \<and> weight_reduce_loss ex_loss (Some ex_weight) ''mean'' (Some 2) = Inr (scalar 2)"
  using apply_weight_is_weighted[OF assms] apply_weight_is_weighted[OF ex_weighted]
  by (simp add: weight_reduce_loss_def reduce_loss_def get_enum_def tmean_def tsum_def
      tdiv_def scalar_def)

theorem weight_reduce_loss_reductions_witness:
  "is_weighted_loss ex_loss (Some ex_weight)
      \<lparr>shape = [3], data = [1, 0, 3], requires_grad = False\<rparr>
   \<and> weight_reduce_loss ex_loss (Some ex_weight) ''none'' None
        = Inr \<lparr>shape = [3], data = [1, 0, 3], requires_grad = False\<rparr>
   \<and> weight_reduce_loss ex_loss (Some ex_weight) ''mean'' None = Inr (scalar (4 / 3))
   \<and> weight_reduce_loss ex_loss (Some ex_weight) ''sum'' None = Inr (scalar 4)
   \<and> weight_reduce_loss ex_loss (Some ex_weight) ''mean'' (Some 2) = Inr (scalar 2)"
  using weight_reduce_loss_reductions[OF ex_weighted, of 2] ex_weighted
  by (simp add: scalar_def)

text \<open>
  Claim C4. With a weight that meets the contract (or none) and an average factor
  given, the reduction sum raises the usage error (ValueError), and the reduction
  none returns the weighted loss, the same result as without the average factor.
\<close>

theorem weight_reduce_loss_avg_factor:
  assumes "is_weighted_loss loss weight wl"
  shows "weight_reduce_loss loss weight ''sum'' (Some af) = Inl ValueError
    \<and> weight_reduce_loss loss weight ''none'' (Some af) = Inr wl
    \<and> weight_reduce_loss loss weight ''none'' (Some af)
        = weight_reduce_loss loss weight ''none'' None"
  using apply_weight_is_weighted[OF assms]
  by (simp add: weight_reduce_loss_def reduce_loss_def get_enum_def)

theorem weight_reduce_loss_avg_factor_witness:
  "is_weighted_loss ex_loss (Some ex_weight)
      \<lparr>shape = [3], data = [1, 0, 3], requires_grad = False\<rparr>
   \<and> weight_reduce_loss ex_loss (Some ex_weight) ''sum'' (Some 2) = Inl ValueError
   \<and> weight_reduce_loss ex_loss (Some ex_weight) ''none'' (Some 2)
        = Inr \<lparr>shape = [3], data = [1, 0, 3], requires_grad = False\<rparr>"
  using weight_reduce_loss_avg_factor[OF ex_weighted, of 2] ex_weighted
  by simp

section \<open>Properties of the alignment\<close>

lemma select_filter:
  "length xs = length ls \<Longrightarrow>
   select (map P ls) xs = map fst (filter (\<lambda>(r, l). P l) (zip xs ls))"
  by (induction xs ls rule: list_induct2) (auto simp: select_def)

lemma select_filter_self: "select (map P ls) ls = filter P ls"
  by (induction ls) (auto simp: select_def)

lemma length_concat_const:
  "(\<And>x. x \<in> set xs \<Longrightarrow> length (f x) = n) \<Longrightarrow> length (concat (map f xs)) = length xs * n"
  by (induction xs) auto

lemma nth_concat_const:
  "(\<And>x. x \<in> set xs \<Longrightarrow> length (f x) = n) \<Longrightarrow> i < length xs \<Longrightarrow> j < n \<Longrightarrow>
   concat (map f xs) ! (i * n + j) = f (xs ! i) ! j"
proof (induction xs arbitrary: i)
  case Nil
  then show ?case by simp
next
  case (Cons x xs)
  show ?case
  proof (cases i)
    case 0
    then show ?thesis using Cons.prems by (simp add: nth_append)
  next
    case (Suc k)
    then have "concat (map f (x # xs)) ! (i * n + j) = concat (map f xs) ! (k * n + j)"
      using Cons.prems by (simp add: nth_append)
    also have "\<dots> = f (xs ! k) ! j"
      using Cons.prems Suc by (intro Cons.IH) auto
    finally show ?thesis using Suc by simp
  qed
qed

lemma length_grid3: "length (grid3 B H W f) = B * H * W"
  by (simp add: grid3_def length_concat_const)

lemma grid3_nth:
  assumes "b < B" "i < H" "j < W"
  shows "grid3 B H W f ! ((b * H + i) * W + j) = f b i j"
proof -
  let ?inner = "\<lambda>b. concat (map (\<lambda>i. map (\<lambda>j. f b i j) [0..<W]) [0..<H])"
  have li: "\<And>b. length (?inner b) = H * W" by (simp add: length_concat_const)
  have hw: "i * W + j < H * W"
  proof -
    have "i * W + j < i * W + W" using assms by simp
    also have "\<dots> = Suc i * W" by simp
    also have "\<dots> \<le> H * W" using assms by (intro mult_le_mono1) simp
    finally show ?thesis .
  qed
  have "grid3 B H W f ! (b * (H * W) + (i * W + j)) = ?inner ([0..<B] ! b) ! (i * W + j)"
    unfolding grid3_def using assms hw li by (intro nth_concat_const) auto
  also have "\<dots> = ?inner b ! (i * W + j)" using assms by simp
  also have "\<dots> = (map (\<lambda>j. f b ([0..<H] ! i) j) [0..<W]) ! j"
    using assms by (intro nth_concat_const) auto
  also have "\<dots> = f b i j"
    using assms by simp
  finally show ?thesis by (simp add: algebra_simps)
qed

lemma length_tokens: "length (tokens B C H W xs) = B * H * W"
  by (simp add: tokens_def length_grid3)

text \<open>
  Token number \<open>(b * H + h) * W + w\<close> holds the channels of position \<open>(h, w)\<close> of
  batch element \<open>b\<close>: the order of the flattened single-channel mask.
\<close>

lemma tokens_nth:
  "b < B \<Longrightarrow> h < H \<Longrightarrow> w < W \<Longrightarrow>
   tokens B C H W xs ! ((b * H + h) * W + w)
     = map (\<lambda>c. xs ! (((b * C + c) * H + h) * W + w)) [0..<C]"
  by (simp add: tokens_def grid3_nth)

lemma tokens_ex: "tokens (Suc 0) (Suc 0) 2 2 [10, 11, 12, 13::real] = [[10], [11], [12], [13]]"
  by (simp add: tokens_def grid3_def upt_rec numeral_nat)

text \<open>
  Claim C6. For a feature map of shape (B, C, H, W) with at least one channel and a
  well-formed single-channel mask of the same batch size and resolution, the aligner
  returns the pairs of token row and label whose label differs from the ignore index,
  in their original order: the labels are the kept labels, and the rows are the
  first components of the kept pairs, so both outputs drop the same positions. The
  token rows pair with the labels one to one (their counts agree).
\<close>

theorem contrast_preparations_filters:
  assumes "shape feat = [B, C, H, W]" and "0 < C"
    and "shape mask0 = [B, 1, H, W]" and "wf_tensor mask0"
  shows "contrast_preparations feat mask0 ignore_index =
      Inr (\<lparr>ncols = C,
             mrows = map fst (filter (\<lambda>(r, l). l \<noteq> ignore_index)
                       (zip (tokens B C H W (data feat)) (data mask0))),
             mgrad = requires_grad feat\<rparr>,
           \<lparr>shape = [length (filter (\<lambda>l. l \<noteq> ignore_index) (data mask0))],
             data = filter (\<lambda>l. l \<noteq> ignore_index) (data mask0),
             requires_grad = requires_grad mask0\<rparr>)
    \<and> length (tokens B C H W (data feat)) = length (data mask0)"
proof -
  have len: "length (tokens B C H W (data feat)) = length (data mask0)"
    using assms by (simp add: length_tokens wf_tensor_def)
  show ?thesis
    using assms len
    by (simp add: contrast_preparations_def last2_def Let_def select_filter select_filter_self)
qed

text \<open>For the labels [0, 1, 255, 2] exactly the third token is removed from both outputs.\<close>

theorem contrast_preparations_filters_witness:
  "shape ex_feat = [1, 1, 2, 2] \<and> shape ex_mask = [1, 1, 2, 2] \<and> wf_tensor ex_mask
   \<and> contrast_preparations ex_feat ex_mask 255 =
      Inr (\<lparr>ncols = 1, mrows = [[10], [11], [13]], mgrad = True\<rparr>,
           \<lparr>shape = [3], data = [0, 1, 2], requires_grad = False\<rparr>)"
  using contrast_preparations_filters[of ex_feat 1 1 2 2 ex_mask 255]
  by (simp add: ex_feat_def ex_mask_def wf_tensor_def tokens_ex)

section \<open>Properties of the label downscaling\<close>

lemma max_dim_props:
  "xs \<noteq> [] \<Longrightarrow> max_dim xs = (m, k) \<Longrightarrow>
   k < length xs \<and> xs ! k = m \<and> (\<forall>i < length xs. xs ! i \<le> m) \<and> (\<forall>i < k. xs ! i < m)"
proof (induction xs arbitrary: m k rule: max_dim.induct)
  case 1
  then show ?case by simp
next
  case (2 x)
  then show ?case by auto
next
  case (3 x y ys)
  obtain m' k' where mk: "max_dim (y # ys) = (m', k')" by (cases "max_dim (y # ys)")
  from "3.IH"[OF _ mk] have ih: "k' < length (y # ys)" "(y # ys) ! k' = m'"
    "\<forall>i < length (y # ys). (y # ys) ! i \<le> m'" "\<forall>i < k'. (y # ys) ! i < m'"
    by auto
  show ?case
  proof (cases "m' \<le> x")
    case True
    then have "m = x" "k = 0" using "3.prems" mk by auto
    moreover have "\<forall>i < length (x # y # ys). (x # y # ys) ! i \<le> x"
    proof (intro allI impI)
      fix i assume "i < length (x # y # ys)"
      then show "(x # y # ys) ! i \<le> x"
        using ih(3) True by (cases i) (auto intro: order_trans)
    qed
    ultimately show ?thesis by simp
  next
    case False
    then have e: "m = m'" "k = Suc k'" using "3.prems" mk by auto
    have "\<forall>i < length (x # y # ys). (x # y # ys) ! i \<le> m'"
    proof (intro allI impI)
      fix i assume "i < length (x # y # ys)"
      then show "(x # y # ys) ! i \<le> m'"
        using ih(3) False by (cases i) auto
    qed
    moreover have "\<forall>i < Suc k'. (x # y # ys) ! i < m'"
    proof (intro allI impI)
      fix i assume "i < Suc k'"
      then show "(x # y # ys) ! i < m'"
        using ih(4) False by (cases i) auto
    qed
    ultimately show ?thesis using e ih(1,2) by simp
  qed
qed

lemma sum_indicator:
  "sum_list (map (\<lambda>v. if v = c then 1 else 0) xs) = real (count_list xs c)"
  by (induction xs) auto

lemma avg_pool_count:
  "avg_pool2d_cell h w s (\<lambda>p. one_hot out p k) b i j
     = real (count_list (block h w s out b i j) (int k)) / real (s * s)"
proof -
  have "concat (map (\<lambda>di. map (\<lambda>dj. one_hot out ((b * h + (i * s + di)) * w + (j * s + dj)) k)
                                  [0..<s]) [0..<s])
      = map (\<lambda>v. if v = int k then 1 else 0) (block h w s out b i j)"
    by (simp add: block_def one_hot_def map_concat comp_def)
  then show ?thesis
    by (simp add: avg_pool2d_cell_def sum_indicator)
qed

lemma length_block: "length (block h w s xs b i j) = s * s"
  by (simp add: block_def length_concat_const)

lemma cell_index_bound:
  fixes b bs i h s j w di dj :: nat
  assumes "b < bs" "i < h div s" "j < w div s" "di < s" "dj < s"
  shows "(b * h + (i * s + di)) * w + (j * s + dj) < bs * h * w"
proof -
  have r: "i * s + di < h"
  proof -
    have "i * s + di < i * s + s" using assms by simp
    also have "\<dots> = Suc i * s" by simp
    also have "\<dots> \<le> (h div s) * s" using assms by (intro mult_le_mono1) simp
    also have "\<dots> \<le> h" by simp
    finally show ?thesis .
  qed
  have c: "j * s + dj < w"
  proof -
    have "j * s + dj < j * s + s" using assms by simp
    also have "\<dots> = Suc j * s" by simp
    also have "\<dots> \<le> (w div s) * s" using assms by (intro mult_le_mono1) simp
    also have "\<dots> \<le> w" by simp
    finally show ?thesis .
  qed
  have "b * h + (i * s + di) < b * h + h" using r by simp
  also have "\<dots> = Suc b * h" by simp
  also have "\<dots> \<le> bs * h" using assms by (intro mult_le_mono1) simp
  finally have "Suc (b * h + (i * s + di)) \<le> bs * h" by simp
  then have "Suc (b * h + (i * s + di)) * w \<le> bs * h * w" by (rule mult_le_mono1)
  moreover have "(b * h + (i * s + di)) * w + (j * s + dj) < Suc (b * h + (i * s + di)) * w"
    using c by simp
  ultimately show ?thesis by simp
qed

lemma block_map:
  assumes "b < bs" "i < h div s" "j < w div s" "length xs = bs * h * w"
  shows "block h w s (map g xs) b i j = map g (block h w s xs b i j)"
proof -
  have "\<And>di dj. di < s \<Longrightarrow> dj < s \<Longrightarrow>
      map g xs ! ((b * h + (i * s + di)) * w + (j * s + dj))
        = g (xs ! ((b * h + (i * s + di)) * w + (j * s + dj)))"
    using cell_index_bound[OF assms(1,2,3)] assms(4) by simp
  then have "\<And>di. di \<in> set [0..<s] \<Longrightarrow>
      map (\<lambda>dj. map g xs ! ((b * h + (i * s + di)) * w + (j * s + dj))) [0..<s]
        = map g (map (\<lambda>dj. xs ! ((b * h + (i * s + di)) * w + (j * s + dj))) [0..<s])"
    by simp
  then have "map (\<lambda>di. map (\<lambda>dj. map g xs ! ((b * h + (i * s + di)) * w + (j * s + dj))) [0..<s]) [0..<s]
        = map (\<lambda>di. map g (map (\<lambda>dj. xs ! ((b * h + (i * s + di)) * w + (j * s + dj))) [0..<s])) [0..<s]"
    by (intro map_cong) auto
  then have "block h w s (map g xs) b i j
      = concat (map (\<lambda>di. map g (map (\<lambda>dj. xs ! ((b * h + (i * s + di)) * w + (j * s + dj))) [0..<s])) [0..<s])"
    unfolding block_def by (rule arg_cong)
  also have "\<dots> = map g (block h w s xs b i j)"
    unfolding block_def by (simp add: map_concat comp_def)
  finally show ?thesis .
qed

lemma count_le_length: "count_list xs c \<le> length xs"
  by (induction xs) auto

lemma downscale_cell:
  fixes bs h w :: nat
  assumes sh: "shape gt = [bs, 1, h, w]" and wf: "wf_tensor gt"
    and vl: "valid_labels n_classes ignore_index (data gt)"
    and sf: "1 < scale_factor" and s: "s = nat scale_factor"
    and fit: "s \<le> h" "s \<le> w"
    and idx: "b < bs" "i < h div s" "j < w div s"
  defines "cnt \<equiv> \<lambda>k. count_list (map (substitute ignore_index n_classes)
                                      (block h w s (data gt) b i j)) (int k)"
  shows "\<exists>out k. downscale_label_ratio gt scale_factor min_ratio n_classes ignore_index = Inr out
      \<and> shape out = [bs, 1, h div s, w div s]
      \<and> length (data out) = bs * (h div s) * (w div s)
      \<and> k \<le> n_classes \<and> (\<forall>k' \<le> n_classes. cnt k' \<le> cnt k) \<and> (\<forall>k' < k. cnt k' < cnt k)
      \<and> data out ! ((b * (h div s) + i) * (w div s) + j)
          = (if k < n_classes \<and> min_ratio \<le> real (cnt k) / real (s * s) then int k
             else ignore_index)"
proof -
  define out1 where "out1 = map (substitute ignore_index n_classes) (data gt)"
  have out1: "out1 = map (\<lambda>v. if v = ignore_index then int n_classes else v) (data gt)"
    by (simp add: out1_def substitute_def[abs_def])
  have s0: "0 < s" using sf s by simp
  have len: "length (data gt) = bs * h * w" using wf sh by (simp add: wf_tensor_def)
  have ok: "\<not> (\<exists>v \<in> set out1. v < 0 \<or> int n_classes + 1 \<le> v)"
    using vl by (auto simp: out1 valid_labels_def)
  define cell where "cell = ratio_cell h w s out1 min_ratio n_classes ignore_index"
  define out where "out = \<lparr>shape = [bs, 1, h div s, w div s],
      data = grid3 bs (h div s) (w div s) cell, requires_grad = False\<rparr>"
  have res: "downscale_label_ratio gt scale_factor min_ratio n_classes ignore_index = Inr out"
    using sf sh fit ok s
    by (simp add: downscale_label_ratio_def Let_def out1 out_def cell_def)
  have blk: "block h w s out1 b i j = map (substitute ignore_index n_classes) (block h w s (data gt) b i j)"
    unfolding out1_def using idx len by (intro block_map)
  have pooled: "map (\<lambda>k. avg_pool2d_cell h w s (\<lambda>p. one_hot out1 p k) b i j) [0..<n_classes + 1]
      = map (\<lambda>k. real (cnt k) / real (s * s)) [0..<n_classes + 1]"
    by (simp add: avg_pool_count blk cnt_def)
  obtain m k where mk: "max_dim (map (\<lambda>k. real (cnt k) / real (s * s)) [0..<n_classes + 1]) = (m, k)"
    by (cases "max_dim (map (\<lambda>k. real (cnt k) / real (s * s)) [0..<n_classes + 1])")
  have ne: "map (\<lambda>k. real (cnt k) / real (s * s)) [0..<n_classes + 1] \<noteq> []" by simp
  from max_dim_props[OF ne mk]
  have k: "k < n_classes + 1"
    and m: "map (\<lambda>k. real (cnt k) / real (s * s)) [0..<n_classes + 1] ! k = m"
    and mx: "\<forall>i < n_classes + 1. map (\<lambda>k. real (cnt k) / real (s * s)) [0..<n_classes + 1] ! i \<le> m"
    and fst: "\<forall>i < k. map (\<lambda>k. real (cnt k) / real (s * s)) [0..<n_classes + 1] ! i < m"
    by simp_all
  have m': "m = real (cnt k) / real (s * s)"
    using m k by (simp add: nth_append del: upt_Suc)
  have pos: "0 < real (s * s)" using s0 by simp
  have mx': "\<forall>k' \<le> n_classes. cnt k' \<le> cnt k"
  proof (intro allI impI)
    fix k' assume "k' \<le> n_classes"
    then have "k' < n_classes + 1" by simp
    with mx have "map (\<lambda>k. real (cnt k) / real (s * s)) [0..<n_classes + 1] ! k' \<le> m" by blast
    then have "real (cnt k') / real (s * s) \<le> real (cnt k) / real (s * s)"
      using \<open>k' < n_classes + 1\<close> by (simp add: m' del: upt_Suc)
    then show "cnt k' \<le> cnt k" using pos by (simp add: divide_le_cancel)
  qed
  have fst': "\<forall>k' < k. cnt k' < cnt k"
  proof (intro allI impI)
    fix k' assume a: "k' < k"
    then have b: "k' < n_classes + 1" using k by simp
    from fst a have "map (\<lambda>k. real (cnt k) / real (s * s)) [0..<n_classes + 1] ! k' < m" by blast
    then have "real (cnt k') / real (s * s) < real (cnt k) / real (s * s)"
      using b by (simp add: m' del: upt_Suc)
    then show "cnt k' < cnt k" using pos by (simp add: divide_less_cancel)
  qed
  have "data out ! ((b * (h div s) + i) * (w div s) + j) = cell b i j"
    using idx by (simp add: out_def grid3_nth)
  also have "\<dots> = (let (gt_ratio, out2) = (m, k);
           out3 = (if int out2 = int n_classes then ignore_index else int out2)
       in if gt_ratio < min_ratio then ignore_index else out3)"
    unfolding cell_def ratio_cell_def pooled mk ..
  also have "\<dots> = (if k < n_classes \<and> min_ratio \<le> real (cnt k) / real (s * s) then int k
             else ignore_index)"
    using k by (auto simp add: m' Let_def)
  finally have c: "data out ! ((b * (h div s) + i) * (w div s) + j)
     = (if k < n_classes \<and> min_ratio \<le> real (cnt k) / real (s * s) then int k else ignore_index)" .
  have "shape out = [bs, 1, h div s, w div s]" "length (data out) = bs * (h div s) * (w div s)"
    by (simp_all add: out_def length_grid3)
  with res c mx' fst' k show ?thesis by auto
qed


lemma set_block:
  assumes "b < bs" "i < h div s" "j < w div s" "length xs = bs * h * w"
  shows "set (block h w s xs b i j) \<subseteq> set xs"
proof
  fix v assume "v \<in> set (block h w s xs b i j)"
  then obtain di dj where d: "di < s" "dj < s"
    and v: "v = xs ! ((b * h + (i * s + di)) * w + (j * s + dj))"
    by (auto simp: block_def)
  from cell_index_bound[OF assms(1,2,3) d] assms(4) show "v \<in> set xs"
    unfolding v by simp
qed

lemma count_pos_in: "0 < count_list xs x \<Longrightarrow> x \<in> set xs"
  by (induction xs) (auto split: if_splits)

lemma count_map_ge: "count_list xs a \<le> count_list (map f xs) (f a)"
  by (induction xs) auto

lemma count_two: "x \<noteq> y \<Longrightarrow> count_list xs x + count_list xs y \<le> length xs"
  by (induction xs) auto

lemma count_three:
  "x \<noteq> y \<Longrightarrow> x \<noteq> z \<Longrightarrow> y \<noteq> z \<Longrightarrow>
   count_list xs x + count_list xs y + count_list xs z \<le> length xs"
  by (induction xs) auto

lemma count_all_same: "\<forall>v \<in> set xs. v = c \<Longrightarrow> count_list xs d = (if d = c then length xs else 0)"
  by (induction xs) auto

text \<open>
  Claim C5. For a well-formed one-channel label map of the data model, a scale
  factor \<open>s\<close> above 1 and a map no smaller than the window, the function returns,
  and every output cell is decided by the counts of the (placeholder-substituted)
  labels of its \<open>s \<times> s\<close> block: with \<open>k\<close> the first class of greatest count, the
  cell is \<open>k\<close> when \<open>k\<close> is not the placeholder and its share of the block reaches
  \<open>min_ratio\<close>, and the ignore value otherwise. A block filled by one label yields
  that label for every \<open>min_ratio\<close> up to 1; a block split in
  halves between two labels yields the ignore value for every \<open>min_ratio\<close> above 1/2.
\<close>

theorem downscale_label_ratio_majority:
  fixes bs h w :: nat
  assumes sh: "shape gt = [bs, 1, h, w]" and wf: "wf_tensor gt"
    and vl: "valid_labels n_classes ignore_index (data gt)"
    and sf: "1 < scale_factor" and s: "s = nat scale_factor"
    and fit: "s \<le> h" "s \<le> w"
    and idx: "b < bs" "i < h div s" "j < w div s"
  defines "blk \<equiv> block h w s (data gt) b i j"
  defines "cnt \<equiv> \<lambda>k. count_list (map (substitute ignore_index n_classes) blk) (int k)"
  shows "\<exists>out k. downscale_label_ratio gt scale_factor min_ratio n_classes ignore_index = Inr out
      \<and> shape out = [bs, 1, h div s, w div s]
      \<and> length (data out) = bs * (h div s) * (w div s)
      \<and> k \<le> n_classes \<and> (\<forall>k' \<le> n_classes. cnt k' \<le> cnt k) \<and> (\<forall>k' < k. cnt k' < cnt k)
      \<and> data out ! ((b * (h div s) + i) * (w div s) + j)
          = (if k < n_classes \<and> min_ratio \<le> real (cnt k) / real (s * s) then int k
             else ignore_index)
      \<and> ((\<forall>v \<in> set blk. v = c) \<and> min_ratio \<le> 1
           \<longrightarrow> data out ! ((b * (h div s) + i) * (w div s) + j) = c)
      \<and> (ca \<noteq> cb \<and> 2 * count_list blk ca = s * s \<and> 2 * count_list blk cb = s * s
             \<and> 1 / 2 < min_ratio
           \<longrightarrow> data out ! ((b * (h div s) + i) * (w div s) + j) = ignore_index)"
proof -
  let ?sub = "substitute ignore_index n_classes"
  from downscale_cell[OF sh wf vl sf s fit idx, of min_ratio]
  obtain out k where res: "downscale_label_ratio gt scale_factor min_ratio n_classes ignore_index = Inr out"
    and shp: "shape out = [bs, 1, h div s, w div s]"
    and len: "length (data out) = bs * (h div s) * (w div s)"
    and k: "k \<le> n_classes" and mx: "\<forall>k' \<le> n_classes. cnt k' \<le> cnt k"
    and fs: "\<forall>k' < k. cnt k' < cnt k"
    and cell: "data out ! ((b * (h div s) + i) * (w div s) + j)
          = (if k < n_classes \<and> min_ratio \<le> real (cnt k) / real (s * s) then int k
             else ignore_index)"
    unfolding cnt_def blk_def by blast
  have s0: "0 < s" using sf s by simp
  have lenb: "length blk = s * s" by (simp add: blk_def length_block)
  have ne: "blk \<noteq> []" using lenb s0 by auto
  have lgt: "length (data gt) = bs * h * w" using wf sh by (simp add: wf_tensor_def)
  have sub: "set blk \<subseteq> set (data gt)"
    unfolding blk_def using idx lgt by (intro set_block)
  have valid: "\<And>v. v \<in> set blk \<Longrightarrow> v = ignore_index \<or> (0 \<le> v \<and> v < int n_classes)"
    using sub vl by (auto simp: valid_labels_def)
  have subn: "\<And>v. v \<in> set blk \<Longrightarrow> 0 \<le> ?sub v \<and> ?sub v \<le> int n_classes"
    using valid by (force simp: substitute_def)
  have single_class: "data out ! ((b * (h div s) + i) * (w div s) + j) = c"
    if all: "\<forall>v \<in> set blk. v = c" and cig: "c \<noteq> ignore_index" and mr: "min_ratio \<le> 1"
  proof -
    from ne obtain v where "v \<in> set blk" by (cases blk) auto
    with all have cin: "c \<in> set blk" by auto
    with valid cig have cr: "0 \<le> c" "c < int n_classes" by auto
    have all': "\<forall>v \<in> set (map ?sub blk). v = c"
      using all cig by (auto simp: substitute_def)
    have cntv: "\<And>k'. cnt k' = (if int k' = c then s * s else 0)"
      unfolding cnt_def using count_all_same[OF all'] lenb by simp
    have "nat c \<le> n_classes" using cr by simp
    with mx have "cnt (nat c) \<le> cnt k" by blast
    then have "s * s \<le> cnt k" using cntv[of "nat c"] cr by simp
    moreover have "0 < s * s" using s0 by simp
    ultimately have "0 < cnt k" by linarith
    then have kc: "int k = c" using cntv[of k] by (simp split: if_splits)
    then have klt: "k < n_classes" using cr by simp
    have ck: "cnt k = s * s" using cntv[of k] kc by simp
    have r1: "real (cnt k) / real (s * s) = 1" unfolding ck using s0 by simp
    have "min_ratio \<le> real (cnt k) / real (s * s)" unfolding r1 by (rule mr)
    with klt have cond: "k < n_classes \<and> min_ratio \<le> real (cnt k) / real (s * s)" by blast
    have "data out ! ((b * (h div s) + i) * (w div s) + j)
        = (if k < n_classes \<and> min_ratio \<le> real (cnt k) / real (s * s) then int k
           else ignore_index)" by (rule cell)
    also have "\<dots> = int k" using cond by (rule if_P)
    also have "\<dots> = c" by (rule kc)
    finally show ?thesis .
  qed
  have single_ignore: "data out ! ((b * (h div s) + i) * (w div s) + j) = c"
    if all: "\<forall>v \<in> set blk. v = c" and cig: "c = ignore_index"
  proof -
    have all': "\<forall>v \<in> set (map ?sub blk). v = int n_classes"
      using all cig by (auto simp: substitute_def)
    have cntv: "\<And>k'. cnt k' = (if k' = n_classes then s * s else 0)"
      unfolding cnt_def using count_all_same[OF all'] lenb by simp
    from mx have "cnt n_classes \<le> cnt k" by blast
    then have "s * s \<le> cnt k" using cntv[of n_classes] by simp
    moreover have "0 < s * s" using s0 by simp
    ultimately have "0 < cnt k" by linarith
    then have "k = n_classes" using cntv[of k] by (simp split: if_splits)
    then have "\<not> (k < n_classes \<and> min_ratio \<le> real (cnt k) / real (s * s))" by simp
    then have "(if k < n_classes \<and> min_ratio \<le> real (cnt k) / real (s * s) then int k
           else ignore_index) = ignore_index" by (rule if_not_P)
    with cell have "data out ! ((b * (h div s) + i) * (w div s) + j) = ignore_index"
      by (rule trans)
    then show ?thesis unfolding cig .
  qed
  have single: "data out ! ((b * (h div s) + i) * (w div s) + j) = c"
    if "\<forall>v \<in> set blk. v = c" and "min_ratio \<le> 1"
    using that single_class single_ignore by (cases "c = ignore_index") blast+
  have split: "data out ! ((b * (h div s) + i) * (w div s) + j) = ignore_index"
    if ne12: "ca \<noteq> cb" and h1: "2 * count_list blk ca = s * s"
      and h2: "2 * count_list blk cb = s * s" and mr: "1 / 2 < min_ratio"
  proof -
    have p1: "0 < count_list blk ca" using h1 s0 by (cases "count_list blk ca") auto
    have p2: "0 < count_list blk cb" using h2 s0 by (cases "count_list blk cb") auto
    have in1: "ca \<in> set blk" using p1 by (rule count_pos_in)
    have in2: "cb \<in> set blk" using p2 by (rule count_pos_in)
    have sne: "?sub ca \<noteq> ?sub cb"
      using valid[OF in1] valid[OF in2] ne12 by (auto simp: substitute_def)
    define A where "A = nat (?sub ca)"
    define B where "B = nat (?sub cb)"
    have AB: "int A = ?sub ca" "int B = ?sub cb" "A \<noteq> B"
      using subn[OF in1] subn[OF in2] sne by (auto simp: A_def B_def)
    have gA: "count_list blk ca \<le> cnt A" unfolding cnt_def AB by (rule count_map_ge)
    have gB: "count_list blk cb \<le> cnt B" unfolding cnt_def AB by (rule count_map_ge)
    have lenm: "length (map ?sub blk) = s * s" using lenb by simp
    have "2 * cnt k \<le> s * s"
    proof -
      have two: "cnt A + cnt B \<le> s * s"
        unfolding cnt_def using count_two[of "int A" "int B" "map ?sub blk"] AB(3) lenm by simp
      consider "k = A" | "k = B" | "k \<noteq> A" "k \<noteq> B" by blast
      then show ?thesis
      proof cases
        case 1
        show ?thesis unfolding 1 using two gB h2 by linarith
      next
        case 2
        show ?thesis unfolding 2 using two gA h1 by linarith
      next
        case 3
        then have "int k \<noteq> int A" "int k \<noteq> int B" "int A \<noteq> int B" using AB(3) by auto
        from count_three[OF this, of "map ?sub blk"]
        have "cnt k + cnt A + cnt B \<le> s * s" unfolding cnt_def using lenm by simp
        then show ?thesis using gA gB h1 h2 by linarith
      qed
    qed
    then have "real (2 * cnt k) \<le> real (s * s)" by (rule of_nat_mono)
    then have "2 * real (cnt k) \<le> real (s * s)" by simp
    moreover have "0 < real (s * s)" using s0 by simp
    ultimately have "real (cnt k) / real (s * s) \<le> 1 / 2"
      by (simp add: field_simps)
    then have "\<not> (k < n_classes \<and> min_ratio \<le> real (cnt k) / real (s * s))" using mr by linarith
    then have "(if k < n_classes \<and> min_ratio \<le> real (cnt k) / real (s * s) then int k
           else ignore_index) = ignore_index" by (rule if_not_P)
    with cell show ?thesis by (rule trans)
  qed
  from res shp len k mx fs cell single split show ?thesis by blast
qed

lemma ex_blk0: "block 2 4 2 (data ex_gt) 0 0 0 = [1, 1, 1, 1]"
  by code_simp

lemma ex_blk1: "block 2 4 2 (data ex_gt) 0 0 1 = [0, 2, 2, 0]"
  by code_simp

theorem downscale_label_ratio_majority_witness:
  "shape ex_gt = [1, 1, 2, 4] \<and> wf_tensor ex_gt \<and> valid_labels 3 255 (data ex_gt)
   \<and> (\<exists>out. downscale_label_ratio ex_gt 2 (3 / 4) 3 255 = Inr out
         \<and> shape out = [1, 1, 1, 2] \<and> data out ! 0 = 1 \<and> data out ! 1 = 255)"
proof -
  have sh: "shape ex_gt = [1, 1, 2, 4]" by (simp add: ex_gt_def)
  have wf: "wf_tensor ex_gt" by (simp add: ex_gt_def wf_tensor_def)
  have vl: "valid_labels 3 255 (data ex_gt)" by (simp add: ex_gt_def valid_labels_def)
  have sf: "1 < (2::int)" and s: "(2::nat) = nat 2" and fit: "(2::nat) \<le> 2" "(2::nat) \<le> 4"
    and b: "(0::nat) < 1" and i: "(0::nat) < 2 div 2" and j0: "(0::nat) < 4 div 2"
    and j1: "(1::nat) < 4 div 2"
    by simp_all
  from downscale_label_ratio_majority[OF sh wf vl sf s fit b i j0, of "3 / 4" 1 0 2]
  obtain out where r0: "downscale_label_ratio ex_gt 2 (3 / 4) 3 255 = Inr out"
    and s0: "shape out = [1, 1, 2 div 2, 4 div 2]"
    and c0: "(\<forall>v \<in> set (block 2 4 2 (data ex_gt) 0 0 0). v = 1) \<and> (3 / 4 :: real) \<le> 1
        \<longrightarrow> data out ! ((0 * (2 div 2) + 0) * (4 div 2) + 0) = 1"
    by blast
  from downscale_label_ratio_majority[OF sh wf vl sf s fit b i j1, of "3 / 4" 1 0 2]
  obtain out' where r1: "downscale_label_ratio ex_gt 2 (3 / 4) 3 255 = Inr out'"
    and c1: "(0::int) \<noteq> 2 \<and> 2 * count_list (block 2 4 2 (data ex_gt) 0 0 1) 0 = 2 * 2
           \<and> 2 * count_list (block 2 4 2 (data ex_gt) 0 0 1) 2 = 2 * 2 \<and> (1 / 2 :: real) < 3 / 4
        \<longrightarrow> data out' ! ((0 * (2 div 2) + 0) * (4 div 2) + 1) = 255"
    by blast
  have eq: "out' = out" using r0 r1 by simp
  have p0: "(\<forall>v \<in> set (block 2 4 2 (data ex_gt) 0 0 0). v = 1) \<and> (3 / 4 :: real) \<le> 1"
    unfolding ex_blk0 by simp
  have p1: "(0::int) \<noteq> 2 \<and> 2 * count_list (block 2 4 2 (data ex_gt) 0 0 1) 0 = 2 * 2
           \<and> 2 * count_list (block 2 4 2 (data ex_gt) 0 0 1) 2 = 2 * 2 \<and> (1 / 2 :: real) < 3 / 4"
    unfolding ex_blk1 by simp
  have d0: "data out ! 0 = 1" using mp[OF c0 p0] by simp
  have d1: "data out ! 1 = 255" using mp[OF c1 p1] unfolding eq by simp
  have "shape out = [1, 1, 1, 2]" using s0 by simp
  with r0 d0 d1 sh wf vl show ?thesis by blast
qed

lemma downscale_result:
  assumes sh: "shape gt = [bs, 1, h, w]"
    and vl: "valid_labels n_classes ignore_index (data gt)"
    and sf: "1 < scale_factor" and s: "s = nat scale_factor"
    and fit: "s \<le> h" "s \<le> w"
  shows "downscale_label_ratio gt scale_factor min_ratio n_classes ignore_index
     = Inr \<lparr>shape = [bs, 1, h div s, w div s],
            data = grid3 bs (h div s) (w div s)
                     (ratio_cell h w s (map (substitute ignore_index n_classes) (data gt))
                        min_ratio n_classes ignore_index),
            requires_grad = False\<rparr>"
proof -
  have out1: "map (\<lambda>v. if v = ignore_index then int n_classes else v) (data gt)
      = map (substitute ignore_index n_classes) (data gt)"
    by (simp add: substitute_def[abs_def])
  have ok: "\<not> (\<exists>v \<in> set (map (\<lambda>v. if v = ignore_index then int n_classes else v) (data gt)).
               v < 0 \<or> int n_classes + 1 \<le> v)"
    using vl by (auto simp: valid_labels_def)
  have "downscale_label_ratio gt scale_factor min_ratio n_classes ignore_index
     = Inr \<lparr>shape = [bs, 1, h div s, w div s],
            data = grid3 bs (h div s) (w div s)
                     (ratio_cell h w s (map (\<lambda>v. if v = ignore_index then int n_classes else v) (data gt))
                        min_ratio n_classes ignore_index),
            requires_grad = False\<rparr>"
    using sf sh fit s
    by (simp add: downscale_label_ratio_def Let_def if_not_P[OF ok] del: set_map)
  then show ?thesis unfolding out1 .
qed

lemma ratio_cell_block:
  assumes "block h w s out b i j = block h w s out' b i j"
  shows "ratio_cell h w s out min_ratio n_classes ignore_index b i j
       = ratio_cell h w s out' min_ratio n_classes ignore_index b i j"
  unfolding ratio_cell_def avg_pool_count assms ..

lemma grid3_cong:
  assumes "\<And>b i j. b < B \<Longrightarrow> i < H \<Longrightarrow> j < W \<Longrightarrow> f b i j = g b i j"
  shows "grid3 B H W f = grid3 B H W g"
proof -
  have "\<And>b. b \<in> set [0..<B] \<Longrightarrow>
      concat (map (\<lambda>i. map (\<lambda>j. f b i j) [0..<W]) [0..<H])
        = concat (map (\<lambda>i. map (\<lambda>j. g b i j) [0..<W]) [0..<H])"
  proof -
    fix b assume b: "b \<in> set [0..<B]"
    have "map (\<lambda>i. map (\<lambda>j. f b i j) [0..<W]) [0..<H] = map (\<lambda>i. map (\<lambda>j. g b i j) [0..<W]) [0..<H]"
      using b assms by (intro map_cong) auto
    then show "concat (map (\<lambda>i. map (\<lambda>j. f b i j) [0..<W]) [0..<H])
        = concat (map (\<lambda>i. map (\<lambda>j. g b i j) [0..<W]) [0..<H])" by (rule arg_cong)
  qed
  then have "map (\<lambda>b. concat (map (\<lambda>i. map (\<lambda>j. f b i j) [0..<W]) [0..<H])) [0..<B]
      = map (\<lambda>b. concat (map (\<lambda>i. map (\<lambda>j. g b i j) [0..<W]) [0..<H])) [0..<B]"
    by (intro map_cong) auto
  then show ?thesis unfolding grid3_def by (rule arg_cong)
qed

lemma block_agree:
  fixes h w s :: nat
  assumes i: "i < h div s" and j: "j < w div s"
    and agree: "\<And>y x. y < (h div s) * s \<Longrightarrow> x < (w div s) * s \<Longrightarrow>
       xs' ! ((b * h + y) * w + x) = xs ! ((b * h + y) * w + x)"
  shows "block h w s xs' b i j = block h w s xs b i j"
proof -
  have e: "\<And>di dj. di < s \<Longrightarrow> dj < s \<Longrightarrow>
      xs' ! ((b * h + (i * s + di)) * w + (j * s + dj)) = xs ! ((b * h + (i * s + di)) * w + (j * s + dj))"
  proof -
    fix di dj assume d: "di < s" "dj < s"
    have "i * s + di < i * s + s" using d by simp
    also have "\<dots> = Suc i * s" by simp
    also have "\<dots> \<le> (h div s) * s" using i by (intro mult_le_mono1) simp
    finally have y: "i * s + di < (h div s) * s" .
    have "j * s + dj < j * s + s" using d by simp
    also have "\<dots> = Suc j * s" by simp
    also have "\<dots> \<le> (w div s) * s" using j by (intro mult_le_mono1) simp
    finally have x: "j * s + dj < (w div s) * s" .
    from agree[OF y x]
    show "xs' ! ((b * h + (i * s + di)) * w + (j * s + dj)) = xs ! ((b * h + (i * s + di)) * w + (j * s + dj))" .
  qed
  have "map (\<lambda>di. map (\<lambda>dj. xs' ! ((b * h + (i * s + di)) * w + (j * s + dj))) [0..<s]) [0..<s]
      = map (\<lambda>di. map (\<lambda>dj. xs ! ((b * h + (i * s + di)) * w + (j * s + dj))) [0..<s]) [0..<s]"
    using e by (intro map_cong) auto
  then show ?thesis unfolding block_def by (rule arg_cong)
qed

text \<open>
  Claim C10, as amended. For a well-formed one-channel label map of height \<open>h\<close> and
  width \<open>w\<close> with labels of the data model and a scale factor \<open>s\<close> above 1 with
  \<open>s \<le> h\<close> and \<open>s \<le> w\<close> (divisible or not), the function returns a map of shape
  (h div s, w div s), and a second such map that differs from the first only in the
  trailing \<open>h mod s\<close> rows and \<open>w mod s\<close> columns gives the same output.
\<close>

theorem downscale_label_ratio_floor_shape:
  assumes sh: "shape gt = [bs, 1, h, w]" and sh': "shape gt' = [bs, 1, h, w]"
    and wf: "wf_tensor gt" and wf': "wf_tensor gt'"
    and vl: "valid_labels n_classes ignore_index (data gt)"
    and vl': "valid_labels n_classes ignore_index (data gt')"
    and sf: "1 < scale_factor" and s: "s = nat scale_factor"
    and fit: "s \<le> h" "s \<le> w"
    and agree: "\<forall>b < bs. \<forall>y < (h div s) * s. \<forall>x < (w div s) * s.
        data gt' ! ((b * h + y) * w + x) = data gt ! ((b * h + y) * w + x)"
  shows "\<exists>out. downscale_label_ratio gt scale_factor min_ratio n_classes ignore_index = Inr out
      \<and> shape out = [bs, 1, h div s, w div s]
      \<and> length (data out) = bs * (h div s) * (w div s)
      \<and> downscale_label_ratio gt' scale_factor min_ratio n_classes ignore_index = Inr out"
proof -
  let ?sub = "substitute ignore_index n_classes"
  have len: "length (data gt) = bs * h * w" using wf sh by (simp add: wf_tensor_def)
  have len': "length (data gt') = bs * h * w" using wf' sh' by (simp add: wf_tensor_def)
  have cells: "ratio_cell h w s (map ?sub (data gt')) min_ratio n_classes ignore_index b i j
      = ratio_cell h w s (map ?sub (data gt)) min_ratio n_classes ignore_index b i j"
    if b: "b < bs" and i: "i < h div s" and j: "j < w div s" for b i j
  proof -
    have "block h w s (data gt') b i j = block h w s (data gt) b i j"
      using i j agree b by (intro block_agree) auto
    then have "map ?sub (block h w s (data gt') b i j) = map ?sub (block h w s (data gt) b i j)"
      by (rule arg_cong)
    then have "block h w s (map ?sub (data gt')) b i j = block h w s (map ?sub (data gt)) b i j"
      unfolding block_map[OF b i j len] block_map[OF b i j len'] .
    then show ?thesis by (rule ratio_cell_block)
  qed
  have "grid3 bs (h div s) (w div s) (ratio_cell h w s (map ?sub (data gt')) min_ratio n_classes ignore_index)
      = grid3 bs (h div s) (w div s) (ratio_cell h w s (map ?sub (data gt)) min_ratio n_classes ignore_index)"
    using cells by (intro grid3_cong)
  then show ?thesis
    using downscale_result[OF sh vl sf s fit, of min_ratio]
      downscale_result[OF sh' vl' sf s fit, of min_ratio]
    by (simp add: length_grid3)
qed

text \<open>
  A map of height 1 with scale factor 2 (the height is not divisible by the scale
  factor): the pooling rejects it, so no map of shape (0, 2) is returned.
\<close>

lemma ex_thin_eval: "downscale_label_ratio ex_thin 2 (3 / 4) 3 255 = Inl RuntimeError"
  by code_simp

theorem downscale_label_ratio_floor_shape_counterexample:
  "shape ex_thin = [1, 1, 1, 4] \<and> wf_tensor ex_thin \<and> valid_labels 3 255 (data ex_thin)
   \<and> \<not> (\<exists>out. downscale_label_ratio ex_thin 2 (3 / 4) 3 255 = Inr out
           \<and> shape out = [1, 1, 1 div 2, 4 div 2])"
  by (simp add: ex_thin_eval) (simp add: ex_thin_def wf_tensor_def valid_labels_def)

lemma ex_odd_agree:
  "\<forall>b < (1::nat). \<forall>y < (3 div 2) * (2::nat). \<forall>x < (5 div 2) * (2::nat).
        data ex_odd' ! ((b * 3 + y) * 5 + x) = data ex_odd ! ((b * 3 + y) * 5 + x)"
proof -
  have two: "(3 div 2) * (2::nat) = Suc (Suc 0)" and four: "(5 div 2) * (2::nat) = Suc (Suc (Suc (Suc 0)))"
    by simp_all
  show ?thesis unfolding two four
    by (simp add: All_less_Suc ex_odd_def ex_odd'_def)
qed

lemma ex_odd_eval: "downscale_label_ratio ex_odd 2 (3 / 4) 3 255
    = Inr \<lparr>shape = [1, 1, 1, 2], data = [1, 255], requires_grad = False\<rparr>"
  by code_simp

theorem downscale_label_ratio_floor_shape_witness:
  "shape ex_odd = [1, 1, 3, 5] \<and> shape ex_odd' = [1, 1, 3, 5]
   \<and> data ex_odd' \<noteq> data ex_odd
   \<and> downscale_label_ratio ex_odd 2 (3 / 4) 3 255
        = Inr \<lparr>shape = [1, 1, 1, 2], data = [1, 255], requires_grad = False\<rparr>
   \<and> downscale_label_ratio ex_odd' 2 (3 / 4) 3 255
        = Inr \<lparr>shape = [1, 1, 1, 2], data = [1, 255], requires_grad = False\<rparr>"
proof -
  have sh: "shape ex_odd = [1, 1, 3, 5]" and sh': "shape ex_odd' = [1, 1, 3, 5]"
    by (simp_all add: ex_odd_def ex_odd'_def)
  have wf: "wf_tensor ex_odd" and wf': "wf_tensor ex_odd'"
    by (simp_all add: ex_odd_def ex_odd'_def wf_tensor_def)
  have vl: "valid_labels 3 255 (data ex_odd)" and vl': "valid_labels 3 255 (data ex_odd')"
    by (simp_all add: ex_odd_def ex_odd'_def valid_labels_def)
  have sf: "1 < (2::int)" and s: "(2::nat) = nat 2" and fit: "(2::nat) \<le> 3" "(2::nat) \<le> 5"
    by simp_all
  from downscale_label_ratio_floor_shape[OF sh sh' wf wf' vl vl' sf s fit ex_odd_agree, of "3 / 4"]
  obtain out where "downscale_label_ratio ex_odd 2 (3 / 4) 3 255 = Inr out"
    and "downscale_label_ratio ex_odd' 2 (3 / 4) 3 255 = Inr out"
    by blast
  moreover have "data ex_odd' \<noteq> data ex_odd" by (simp add: ex_odd_def ex_odd'_def)
  ultimately show ?thesis using sh sh' ex_odd_eval by simp
qed

section \<open>Properties of the loss variants\<close>

lemma ebind_Inr [simp]: "ebind (Inr v) f = f v"
  by (simp add: ebind_def)

lemma ebind_Inl [simp]: "ebind (Inl e) f = Inl e"
  by (simp add: ebind_def)

lemma ex_ignored_prep:
  "contrast_preparations ex_feat ex_ignored 255
     = Inr (\<lparr>ncols = 1, mrows = [], mgrad = True\<rparr>,
            \<lparr>shape = [0], data = [], requires_grad = False\<rparr>)"
  by (simp add: contrast_preparations_def ex_feat_def ex_ignored_def last2_def
      tokens_ex[simplified] select_def Let_def)

text \<open>
  Claim C7. When the alignment leaves no token (every token carries the ignore
  index) and the assertions on the arguments hold (the features track gradients; the
  mean and the covariance of \<^verbatim>\<open>proto_contrastive\<close> and \<^verbatim>\<open>dist_contrastive\<close> are given
  and do not; the bank of \<^verbatim>\<open>bank_contrastive\<close> is given, and its mean is given and
  tracks no gradient when \<^verbatim>\<open>reg_weight\<close> is positive), each of the three variants
  ends in the copy of the zero-valued scalar to the CUDA device, whatever the other
  arguments are: on a host with a usable CUDA device the variant returns the zero
  scalar, and on any other host it raises, where the claim says that it returns
  zero without raising.
\<close>

theorem empty_batch_zero_loss:
  fixes host :: host
  assumes prep: "contrast_preparations feat mask0 ignore_index = Inr (feat1, mask1)"
    and none: "mrows feat1 = []"
    and fg: "mgrad feat1" and mg: "\<not> requires_grad mask1"
    and mean: "mean = Some mean1" "\<not> mgrad mean1"
    and cov: "covariance = Some covariance1" "\<not> mgrad covariance1"
    and bank: "bank = Some bank1"
    and bank_mean: "0 < reg_weight \<Longrightarrow> \<exists>m. bank_mean = Some m \<and> \<not> mgrad m"
  defines "result \<equiv> (case host of
                       CudaReady \<Rightarrow> Inr zero_loss
                     | CudaNotCompiled \<Rightarrow> Inl AssertionError
                     | CudaNoDevice \<Rightarrow> Inl RuntimeError)"
  shows "proto_contrastive host feat mask0 mean contrast_temp num_classes weight class_weight
           reduction avg_factor reg_weight ignore_index = result
    \<and> dist_contrastive host feat mask0 mean covariance ratio contrast_temp num_classes weight
           class_weight reduction avg_factor reg_weight ignore_index = result
    \<and> bank_contrastive host feat mask0 bank bank_mean contrast_temp num_classes weight
           reduction avg_factor reg_weight ignore_index = result
    \<and> data zero_loss = [0] \<and> shape zero_loss = []"
proof -
  have c: "cuda host zero_loss = result"
    by (simp add: cuda_def result_def)
  have p: "proto_contrastive host feat mask0 mean contrast_temp num_classes weight class_weight
             reduction avg_factor reg_weight ignore_index = result"
    using prep none fg mg mean by (simp add: proto_contrastive_def c)
  have d: "dist_contrastive host feat mask0 mean covariance ratio contrast_temp num_classes weight
             class_weight reduction avg_factor reg_weight ignore_index = result"
    using prep none fg mg mean cov by (simp add: dist_contrastive_def c)
  have "(reg_weight > 0 \<and> (case bank_mean of None \<Rightarrow> True | Some m \<Rightarrow> mgrad m)) = False"
    using bank_mean by (auto split: option.splits)
  then have b: "bank_contrastive host feat mask0 bank bank_mean contrast_temp num_classes weight
             reduction avg_factor reg_weight ignore_index = result"
    unfolding bank_contrastive_def prep ebind_Inr
    using none fg mg bank by (simp only: c option.case prod.case if_False if_True not_True_eq_False refl)
  show ?thesis using p d b by (simp add: zero_loss_def)
qed

theorem empty_batch_zero_loss_witness:
  "data ex_ignored = [255, 255, 255, 255]
   \<and> proto_contrastive CudaNotCompiled ex_feat ex_ignored (Some ex_mean) 100 2 None None
        ''mean'' None 0 255 = Inl AssertionError
   \<and> dist_contrastive CudaNotCompiled ex_feat ex_ignored (Some ex_mean) (Some ex_mean) 1 100 2
        None None ''mean'' None 0 255 = Inl AssertionError
   \<and> bank_contrastive CudaNotCompiled ex_feat ex_ignored (Some ex_bank2) None 100 2 None
        ''mean'' None 0 255 = Inl AssertionError
   \<and> proto_contrastive CudaReady ex_feat ex_ignored (Some ex_mean) 100 2 None None
        ''mean'' None 0 255 = Inr zero_loss
   \<and> dist_contrastive CudaReady ex_feat ex_ignored (Some ex_mean) (Some ex_mean) 1 100 2
        None None ''mean'' None 0 255 = Inr zero_loss
   \<and> bank_contrastive CudaReady ex_feat ex_ignored (Some ex_bank2) None 100 2 None
        ''mean'' None 0 255 = Inr zero_loss"
proof -
  have m: "\<not> mgrad ex_mean" by (simp add: ex_mean_def)
  have g: "mgrad \<lparr>ncols = 1, mrows = [], mgrad = True\<rparr>"
    and r: "mrows \<lparr>ncols = 1, mrows = [], mgrad = True\<rparr> = []"
    and q: "\<not> requires_grad \<lparr>shape = [0], data = ([]::int list), requires_grad = False\<rparr>"
    by simp_all
  have w: "(0::real) < 0 \<Longrightarrow> \<exists>m. (None::matrix option) = Some m \<and> \<not> mgrad m"
    by simp
  note t = empty_batch_zero_loss[OF ex_ignored_prep r g q refl m refl m refl w,
      where contrast_temp = 100 and num_classes = 2 and weight = None and class_weight = None
        and reduction = "''mean''" and avg_factor = None and ratio = 1]
  from t[where host = CudaNotCompiled] t[where host = CudaReady]
  show ?thesis by (simp add: ex_ignored_def)
qed


lemma ex_prep: "contrast_preparations ex_feat ex_mask 255 = Inr (ex_feat1, ex_mask1)"
  by (simp add: contrast_preparations_def ex_feat_def ex_mask_def last2_def tokens_ex[simplified]
      select_def Let_def ex_feat1_def ex_mask1_def)




lemma sum_list_nth: "sum_list xs = (\<Sum>i<length xs. xs ! i)"
  by (simp add: sum_list_sum_nth atLeast0LessThan)

lemma dot_sum: "length u = length v \<Longrightarrow> dot u v = (\<Sum>a<length u. u ! a * v ! a)"
proof -
  assume l: "length u = length v"
  have "dot u v = (\<Sum>i<length (map2 (*) u v). map2 (*) u v ! i)"
    unfolding dot_def by (rule sum_list_nth)
  also have "\<dots> = (\<Sum>a<length u. u ! a * v ! a)"
    using l by (intro sum.cong) auto
  finally show ?thesis .
qed

lemma emap_Inr: "(\<And>x. x \<in> set xs \<Longrightarrow> f x = Inr (g x)) \<Longrightarrow> emap f xs = Inr (map g xs)"
  by (induction xs) (simp_all add: ebind_Inr)

lemma row_logit:
  assumes f: "length f = A" and M: "\<forall>m \<in> set M. length m = A" and S: "\<forall>s \<in> set S. length s = A"
    and C: "length M = C" "length S = C"
  shows "map (\<lambda>v. v / contrast_temp)
           (map2 (+) (map (dot f) M)
              (map (\<lambda>v. v * (1 / 2))
                 (map (dot (map (\<lambda>v. v ^ 2) f))
                    (map (map (\<lambda>v. v * ratio / contrast_temp)) S))))
       = map (\<lambda>c. dist_logit f (M ! c) (S ! c) ratio contrast_temp) [0..<C]"
proof (rule nth_equalityI)
  show "length (map (\<lambda>v. v / contrast_temp)
           (map2 (+) (map (dot f) M)
              (map (\<lambda>v. v * (1 / 2))
                 (map (dot (map (\<lambda>v. v ^ 2) f))
                    (map (map (\<lambda>v. v * ratio / contrast_temp)) S)))))
       = length (map (\<lambda>c. dist_logit f (M ! c) (S ! c) ratio contrast_temp) [0..<C])"
    using C by simp
next
  fix c
  assume "c < length (map (\<lambda>v. v / contrast_temp)
           (map2 (+) (map (dot f) M)
              (map (\<lambda>v. v * (1 / 2))
                 (map (dot (map (\<lambda>v. v ^ 2) f))
                    (map (map (\<lambda>v. v * ratio / contrast_temp)) S)))))"
  then have c: "c < C" using C by simp
  have lm: "length (M ! c) = A" using M C c by simp
  have ls: "length (S ! c) = A" using S C c by simp
  have d1: "dot f (M ! c) = (\<Sum>a<length f. f ! a * M ! c ! a)"
    using f lm by (intro dot_sum) simp
  have "dot (map (\<lambda>v. v ^ 2) f) (map (\<lambda>v. v * ratio / contrast_temp) (S ! c))
      = (\<Sum>a<length (map (\<lambda>v. v ^ 2) f).
           map (\<lambda>v. v ^ 2) f ! a * map (\<lambda>v. v * ratio / contrast_temp) (S ! c) ! a)"
    using f ls by (intro dot_sum) simp
  also have "\<dots> = (\<Sum>a<length f. (f ! a) ^ 2 * (S ! c ! a * ratio / contrast_temp))"
    using f ls by (intro sum.cong) auto
  finally have d2: "dot (map (\<lambda>v. v ^ 2) f) (map (\<lambda>v. v * ratio / contrast_temp) (S ! c))
      = (\<Sum>a<length f. (f ! a) ^ 2 * (S ! c ! a * ratio / contrast_temp))" .
  show "map (\<lambda>v. v / contrast_temp)
           (map2 (+) (map (dot f) M)
              (map (\<lambda>v. v * (1 / 2))
                 (map (dot (map (\<lambda>v. v ^ 2) f))
                    (map (map (\<lambda>v. v * ratio / contrast_temp)) S)))) ! c
       = map (\<lambda>c. dist_logit f (M ! c) (S ! c) ratio contrast_temp) [0..<C] ! c"
    using c C by (simp add: d1 d2 dist_logit_def)
qed

lemma sum_exp_logits:
  "sum_list (map exp (map g [0..<C])) = (\<Sum>c<C. exp (g c))"
proof -
  have "sum_list (map exp (map g [0..<C])) = (\<Sum>i<length (map exp (map g [0..<C])). map exp (map g [0..<C]) ! i)"
    by (rule sum_list_nth)
  also have "\<dots> = (\<Sum>c<C. exp (g c))"
    by (intro sum.cong) auto
  finally show ?thesis .
qed

lemma map2_cong_nth:
  assumes "length xs = length ys"
    and "\<And>i. i < length xs \<Longrightarrow> f (xs ! i) (ys ! i) = g (xs ! i) (ys ! i)"
  shows "map2 f xs ys = map2 g xs ys"
  using assms by (intro nth_equalityI) auto

lemma dist_loss_tokens:
  assumes wf: "\<forall>r \<in> set (mrows feat). length r = A"
    and wm: "\<forall>m \<in> set (mrows mean). length m = A"
    and wc: "\<forall>s \<in> set (mrows covariance). length s = A"
    and nc: "ncols feat = A" "ncols mean = A" "ncols covariance = A"
    and C: "length (mrows mean) = C" "length (mrows covariance) = C"
    and len: "length labels = length (mrows feat)"
    and lab: "\<forall>y \<in> set labels. 0 \<le> y \<and> y < int C \<and> y \<noteq> ignore_index"
    and temp: "contrast_temp \<noteq> 0"
    and cw: "case class_weight of None \<Rightarrow> True | Some w \<Rightarrow> length w = C"
  shows "dist_loss feat labels mean covariance ratio contrast_temp class_weight ignore_index
       = Inr (map2 (\<lambda>f y. dist_token_loss f y (mrows mean) (mrows covariance) ratio
                              contrast_temp class_weight)
                (mrows feat) labels)"
proof -
  let ?M = "mrows mean" and ?S = "mrows covariance"
  let ?S1 = "map (map (\<lambda>v. v * ratio / contrast_temp)) ?S"
  let ?lrow = "\<lambda>f. map (\<lambda>c. dist_logit f (?M ! c) (?S ! c) ratio contrast_temp) [0..<C]"
  define temp1 where "temp1 = \<lparr>ncols = C, mrows = map (\<lambda>r. map (dot r) ?M) (mrows feat),
      mgrad = (mgrad feat \<or> mgrad mean)\<rparr>"
  define cov1 where "cov1 = covariance\<lparr>mrows := ?S1\<rparr>"
  define sq where "sq = \<lparr>ncols = C,
      mrows = map (\<lambda>r. map (dot r) ?S1) (map (map (\<lambda>v. v ^ 2)) (mrows feat)),
      mgrad = (mgrad feat \<or> mgrad covariance)\<rparr>"
  define logits where "logits = \<lparr>ncols = C, mrows = map ?lrow (mrows feat),
      mgrad = ((mgrad feat \<or> mgrad mean) \<or> (mgrad feat \<or> mgrad covariance))\<rparr>"
  have s1: "mm_t feat mean = Inr temp1"
    using nc C by (simp add: mm_t_def temp1_def)
  have s2: "mdiv (mscale covariance ratio) contrast_temp = Inr cov1"
    using temp by (simp add: mdiv_def mscale_def cov1_def comp_def)
  have s3: "mm_t (mpow2 feat) cov1 = Inr sq"
    using nc C by (simp add: mm_t_def mpow2_def cov1_def sq_def)
  have rows: "map (map (\<lambda>v. v / contrast_temp))
        (map2 (map2 (+)) (mrows temp1) (map (map (\<lambda>v. v * (1 / 2))) (mrows sq)))
      = map ?lrow (mrows feat)"
  proof (rule nth_equalityI)
    show "length (map (map (\<lambda>v. v / contrast_temp))
        (map2 (map2 (+)) (mrows temp1) (map (map (\<lambda>v. v * (1 / 2))) (mrows sq))))
      = length (map ?lrow (mrows feat))"
      by (simp add: temp1_def sq_def)
  next
    fix i
    assume "i < length (map (map (\<lambda>v. v / contrast_temp))
        (map2 (map2 (+)) (mrows temp1) (map (map (\<lambda>v. v * (1 / 2))) (mrows sq))))"
    then have i: "i < length (mrows feat)" by (simp add: temp1_def sq_def)
    then have fi: "length (mrows feat ! i) = A" using wf by simp
    have "map (map (\<lambda>v. v / contrast_temp))
        (map2 (map2 (+)) (mrows temp1) (map (map (\<lambda>v. v * (1 / 2))) (mrows sq))) ! i
      = map (\<lambda>v. v / contrast_temp)
           (map2 (+) (map (dot (mrows feat ! i)) ?M)
              (map (\<lambda>v. v * (1 / 2))
                 (map (dot (map (\<lambda>v. v ^ 2) (mrows feat ! i))) ?S1)))"
      using i by (simp add: temp1_def sq_def)
    also have "\<dots> = ?lrow (mrows feat ! i)"
      using fi wm wc C by (rule row_logit)
    finally show "map (map (\<lambda>v. v / contrast_temp))
        (map2 (map2 (+)) (mrows temp1) (map (map (\<lambda>v. v * (1 / 2))) (mrows sq))) ! i
      = map ?lrow (mrows feat) ! i"
      using i by simp
  qed
  have s4: "ebind (madd temp1 (mscale sq (1 / 2))) (\<lambda>logits0. mdiv logits0 contrast_temp) = Inr logits"
    using temp rows by (simp add: madd_def mscale_def mdiv_def logits_def temp1_def sq_def)
  have inr: "\<not> (\<exists>t \<in> set labels. t \<noteq> ignore_index \<and> (t < 0 \<or> int (ncols logits) \<le> t))"
    using lab by (auto simp: logits_def)
  have cwl: "\<not> (case class_weight of None \<Rightarrow> False | Some w \<Rightarrow> length w \<noteq> ncols logits)"
    using cw by (auto simp: logits_def split: option.splits)
  have s6: "cross_entropy logits labels class_weight ignore_index
      = Inr (map2 (\<lambda>f y. dist_ce f y ?M ?S ratio contrast_temp class_weight) (mrows feat) labels)"
  proof -
    have "cross_entropy logits labels class_weight ignore_index
      = Inr (map2 (\<lambda>x t. if t = ignore_index then 0
                             else - (case class_weight of None \<Rightarrow> 1 | Some w \<Rightarrow> w ! nat t)
                                    * ln (exp (x ! nat t) / sum_list (map exp x)))
                  (mrows logits) labels)"
      unfolding cross_entropy_def using inr cwl by (simp only: if_False)
    also have "map2 (\<lambda>x t. if t = ignore_index then 0
                             else - (case class_weight of None \<Rightarrow> 1 | Some w \<Rightarrow> w ! nat t)
                                    * ln (exp (x ! nat t) / sum_list (map exp x)))
                  (mrows logits) labels
        = map2 (\<lambda>f y. dist_ce f y ?M ?S ratio contrast_temp class_weight) (mrows feat) labels"
    proof (rule nth_equalityI)
      show "length (map2 (\<lambda>x t. if t = ignore_index then 0
                             else - (case class_weight of None \<Rightarrow> 1 | Some w \<Rightarrow> w ! nat t)
                                    * ln (exp (x ! nat t) / sum_list (map exp x)))
                  (mrows logits) labels)
        = length (map2 (\<lambda>f y. dist_ce f y ?M ?S ratio contrast_temp class_weight) (mrows feat) labels)"
        by (simp add: logits_def)
    next
      fix i
      assume "i < length (map2 (\<lambda>x t. if t = ignore_index then 0
                             else - (case class_weight of None \<Rightarrow> 1 | Some w \<Rightarrow> w ! nat t)
                                    * ln (exp (x ! nat t) / sum_list (map exp x)))
                  (mrows logits) labels)"
      then have i: "i < length (mrows feat)" "i < length labels" by (simp_all add: logits_def)
      then have y: "0 \<le> labels ! i" "labels ! i < int C" "labels ! i \<noteq> ignore_index"
        using lab by (auto simp: all_set_conv_all_nth)
      then have ny: "nat (labels ! i) < C" by simp
      have "sum_list (map exp (?lrow (mrows feat ! i)))
          = (\<Sum>c<C. exp (dist_logit (mrows feat ! i) (?M ! c) (?S ! c) ratio contrast_temp))"
        by (rule sum_exp_logits)
      then have se: "sum_list (map (exp \<circ> (\<lambda>c. dist_logit (mrows feat ! i) (?M ! c) (?S ! c) ratio
                                            contrast_temp)) [0..<C])
          = (\<Sum>c<C. exp (dist_logit (mrows feat ! i) (?M ! c) (?S ! c) ratio contrast_temp))"
        by (simp only: map_map)
      show "map2 (\<lambda>x t. if t = ignore_index then 0
                             else - (case class_weight of None \<Rightarrow> 1 | Some w \<Rightarrow> w ! nat t)
                                    * ln (exp (x ! nat t) / sum_list (map exp x)))
                  (mrows logits) labels ! i
        = map2 (\<lambda>f y. dist_ce f y ?M ?S ratio contrast_temp class_weight) (mrows feat) labels ! i"
        using i y ny by (simp add: logits_def dist_ce_def se C)
    qed
    finally show ?thesis .
  qed
  have s7: "index_rows cov1 labels = Inr (map (\<lambda>t. ?S1 ! nat t) labels)"
    unfolding index_rows_def using lab C by (intro emap_Inr) (auto simp: cov1_def)
  have jcl: "map2 (+)
        (map2 (\<lambda>f y. dist_ce f y ?M ?S ratio contrast_temp class_weight) (mrows feat) labels)
        (map2 (\<lambda>f c. 1 / 2 * sum_list (map2 (*) (map (\<lambda>v. v ^ 2) f) c) / contrast_temp)
              (mrows feat) (map (\<lambda>t. ?S1 ! nat t) labels))
      = map2 (\<lambda>f y. dist_token_loss f y ?M ?S ratio contrast_temp class_weight) (mrows feat) labels"
  proof (rule nth_equalityI)
    show "length (map2 (+)
        (map2 (\<lambda>f y. dist_ce f y ?M ?S ratio contrast_temp class_weight) (mrows feat) labels)
        (map2 (\<lambda>f c. 1 / 2 * sum_list (map2 (*) (map (\<lambda>v. v ^ 2) f) c) / contrast_temp)
              (mrows feat) (map (\<lambda>t. ?S1 ! nat t) labels)))
      = length (map2 (\<lambda>f y. dist_token_loss f y ?M ?S ratio contrast_temp class_weight) (mrows feat) labels)"
      by simp
  next
    fix i
    assume "i < length (map2 (+)
        (map2 (\<lambda>f y. dist_ce f y ?M ?S ratio contrast_temp class_weight) (mrows feat) labels)
        (map2 (\<lambda>f c. 1 / 2 * sum_list (map2 (*) (map (\<lambda>v. v ^ 2) f) c) / contrast_temp)
              (mrows feat) (map (\<lambda>t. ?S1 ! nat t) labels)))"
    then have i: "i < length (mrows feat)" "i < length labels" by simp_all
    then have y: "0 \<le> labels ! i" "labels ! i < int C"
      using lab by (auto simp: all_set_conv_all_nth)
    then have ny: "nat (labels ! i) < length ?S" using C by simp
    have fi: "length (mrows feat ! i) = A" using wf i by simp
    have ls: "length (?S ! nat (labels ! i)) = A" using wc ny by simp
    have "sum_list (map2 (*) (map (\<lambda>v. v ^ 2) (mrows feat ! i))
                      (map (\<lambda>v. v * ratio / contrast_temp) (?S ! nat (labels ! i))))
        = dot (map (\<lambda>v. v ^ 2) (mrows feat ! i))
              (map (\<lambda>v. v * ratio / contrast_temp) (?S ! nat (labels ! i)))"
      by (simp add: dot_def)
    also have "\<dots> = (\<Sum>a<length (map (\<lambda>v. v ^ 2) (mrows feat ! i)).
           map (\<lambda>v. v ^ 2) (mrows feat ! i) ! a
             * map (\<lambda>v. v * ratio / contrast_temp) (?S ! nat (labels ! i)) ! a)"
      using fi ls by (intro dot_sum) simp
    also have "\<dots> = (\<Sum>a<length (mrows feat ! i). (mrows feat ! i ! a) ^ 2
                          * (?S ! nat (labels ! i) ! a * ratio / contrast_temp))"
      using fi ls by (intro sum.cong) auto
    finally have d: "sum_list (map2 (*) (map (\<lambda>v. v ^ 2) (mrows feat ! i))
                      (map (\<lambda>v. v * ratio / contrast_temp) (?S ! nat (labels ! i))))
        = (\<Sum>a<length (mrows feat ! i). (mrows feat ! i ! a) ^ 2
                          * (?S ! nat (labels ! i) ! a * ratio / contrast_temp))" .
    show "map2 (+)
        (map2 (\<lambda>f y. dist_ce f y ?M ?S ratio contrast_temp class_weight) (mrows feat) labels)
        (map2 (\<lambda>f c. 1 / 2 * sum_list (map2 (*) (map (\<lambda>v. v ^ 2) f) c) / contrast_temp)
              (mrows feat) (map (\<lambda>t. ?S1 ! nat t) labels)) ! i
      = map2 (\<lambda>f y. dist_token_loss f y ?M ?S ratio contrast_temp class_weight) (mrows feat) labels ! i"
      using i ny by (simp add: dist_token_loss_def d)
  qed
  have "dist_loss feat labels mean covariance ratio contrast_temp class_weight ignore_index
      = ebind (ebind (madd temp1 (mscale sq (1 / 2))) (\<lambda>logits0. mdiv logits0 contrast_temp))
          (\<lambda>logits.
     ebind (cross_entropy logits labels class_weight ignore_index) (\<lambda>ce_loss.
     ebind (index_rows cov1 labels) (\<lambda>selected.
       if contrast_temp = 0 then Inl NonFinite
       else
         (let jcl_loss = map2 (\<lambda>f c. 1 / 2 * sum_list (map2 (*) (map (\<lambda>v. v ^ 2) f) c)
                                         / contrast_temp)
                           (mrows feat) selected
          in Inr (map2 (+) ce_loss jcl_loss)))))"
    unfolding dist_loss_def s1 s2 ebind_Inr s3
    by (simp add: ebind_def split: sum.splits)
  also have "\<dots> = Inr (map2 (+)
        (map2 (\<lambda>f y. dist_ce f y ?M ?S ratio contrast_temp class_weight) (mrows feat) labels)
        (map2 (\<lambda>f c. 1 / 2 * sum_list (map2 (*) (map (\<lambda>v. v ^ 2) f) c) / contrast_temp)
              (mrows feat) (map (\<lambda>t. ?S1 ! nat t) labels)))"
    unfolding s4 ebind_Inr s6 s7 using temp by (simp add: Let_def)
  finally show ?thesis unfolding jcl .
qed

lemma length_select: "length (select (map P ls) xs) = length (filter P ls)" if "length xs = length ls"
  using that by (induction xs ls rule: list_induct2) (auto simp: select_def)

lemma set_select: "set (select msk xs) \<subseteq> set xs"
  by (auto simp: select_def dest: set_zip_rightD)

lemma set_tokens: "r \<in> set (tokens B C H W xs) \<Longrightarrow> length r = C"
  by (auto simp: tokens_def grid3_def)

lemma prep_wf:
  assumes "contrast_preparations feat mask0 ignore_index = Inr (feat1, mask1)"
  shows "(\<forall>r \<in> set (mrows feat1). length r = ncols feat1)
    \<and> length (data mask1) = length (mrows feat1)
    \<and> (\<forall>y \<in> set (data mask1). y \<noteq> ignore_index)
    \<and> mgrad feat1 = requires_grad feat"
proof -
  define m1 where "m1 = (if last2 (shape mask0) \<noteq> last2 (shape feat)
            then interpolate_nearest mask0 (last2 (shape feat)) else Inr mask0)"
  have cp: "contrast_preparations feat mask0 ignore_index
      = (case m1 of Inl e \<Rightarrow> Inl e
         | Inr mask1 \<Rightarrow>
          (let mask2 = (if length (shape mask1) = 4 \<and> shape mask1 ! 1 > 1
                        then argmax_dim1 mask1 else mask1)
           in case shape feat of
                [batch_size, channels, height, width] \<Rightarrow>
                  if channels = 0 then Inl RuntimeError
                  else
                    (let feat2 = tokens batch_size channels height width (data feat);
                         mask3 = data mask2
                     in if length feat2 \<noteq> length mask3 then Inl AssertionError
                        else
                          (let msk = map (\<lambda>v. v \<noteq> ignore_index) mask3
                           in Inr (\<lparr>ncols = channels, mrows = select msk feat2,
                                     mgrad = requires_grad feat\<rparr>,
                                   \<lparr>shape = [length (select msk mask3)],
                                     data = select msk mask3,
                                     requires_grad = requires_grad mask2\<rparr>)))
              | _ \<Rightarrow> Inl ValueError))"
    unfolding contrast_preparations_def m1_def ..
  from assms obtain mask1a where a: "m1 = Inr mask1a"
    unfolding cp by (cases m1) auto
  define mask2 where "mask2 = (if length (shape mask1a) = 4 \<and> shape mask1a ! 1 > 1
                        then argmax_dim1 mask1a else mask1a)"
  from assms obtain B C H W where sh: "shape feat = [B, C, H, W]"
    unfolding cp a by (auto simp: Let_def split: list.splits)
  from assms have len: "length (tokens B C H W (data feat)) = length (data mask2)"
    and f: "feat1 = \<lparr>ncols = C,
         mrows = select (map (\<lambda>v. v \<noteq> ignore_index) (data mask2)) (tokens B C H W (data feat)),
         mgrad = requires_grad feat\<rparr>"
    and m: "data mask1 = select (map (\<lambda>v. v \<noteq> ignore_index) (data mask2)) (data mask2)"
    unfolding cp a sh mask2_def by (auto simp: Let_def split: if_splits)
  have "\<forall>r \<in> set (mrows feat1). length r = ncols feat1"
    using set_select[of "map (\<lambda>v. v \<noteq> ignore_index) (data mask2)" "tokens B C H W (data feat)"]
      set_tokens[of _ B C H W "data feat"]
    unfolding f by auto
  moreover have "length (data mask1) = length (mrows feat1)"
    unfolding f m using len by (simp add: length_select)
  moreover have "\<forall>y \<in> set (data mask1). y \<noteq> ignore_index"
    unfolding m by (simp add: select_filter_self)
  moreover have "mgrad feat1 = requires_grad feat" unfolding f by simp
  ultimately show ?thesis by blast
qed

text \<open>
  Claim C1, as amended. For surviving tokens with labels among the classes of the
  mean and covariance (well-formed, of the features' width, without gradient) and a
  non-zero temperature, the unreduced result of \<^verbatim>\<open>dist_contrastive\<close> holds for
  every token the class-weighted cross-entropy of the logits (first-order term plus
  half the squared features against the covariance scaled by ratio / temperature,
  the sum divided by the temperature) against the token's label, plus the correction
  term: half the sum over the channels of the squared features times the
  \<^emph>\<open>scaled\<close> covariance of the true label, divided by the temperature.
\<close>

theorem dist_contrastive_token_loss:
  assumes prep: "contrast_preparations feat mask0 ignore_index = Inr (feat1, mask1)"
    and some: "mrows feat1 \<noteq> []"
    and fg: "requires_grad feat" and mg: "\<not> requires_grad mask1"
    and mng: "\<not> mgrad mean" and cvg: "\<not> mgrad covariance"
    and wm: "wf_matrix mean" and wc: "wf_matrix covariance"
    and nc: "ncols mean = ncols feat1" "ncols covariance = ncols feat1"
    and C: "length (mrows covariance) = length (mrows mean)"
    and lab: "\<forall>y \<in> set (data mask1). 0 \<le> y \<and> y < int (length (mrows mean))"
    and temp: "contrast_temp \<noteq> 0"
    and cw: "case class_weight of None \<Rightarrow> True | Some w \<Rightarrow> length w = length (mrows mean)"
  shows "dist_contrastive host feat mask0 (Some mean) (Some covariance) ratio contrast_temp num_classes
           None class_weight ''none'' None 0 ignore_index
       = Inr (vector (map2 (\<lambda>f y. dist_token_loss f y (mrows mean) (mrows covariance) ratio
                                     contrast_temp class_weight)
                       (mrows feat1) (data mask1)))
    \<and> length (data mask1) = length (mrows feat1)"
proof -
  from prep_wf[OF prep]
  have wf: "\<forall>r \<in> set (mrows feat1). length r = ncols feat1"
    and len: "length (data mask1) = length (mrows feat1)"
    and nig: "\<forall>y \<in> set (data mask1). y \<noteq> ignore_index"
    and g: "mgrad feat1 = requires_grad feat"
    by blast+
  have lab': "\<forall>y \<in> set (data mask1). 0 \<le> y \<and> y < int (length (mrows mean)) \<and> y \<noteq> ignore_index"
    using lab nig by blast
  have wm': "\<forall>m \<in> set (mrows mean). length m = ncols feat1"
    using wm nc by (simp add: wf_matrix_def)
  have wc': "\<forall>s \<in> set (mrows covariance). length s = ncols feat1"
    using wc nc by (simp add: wf_matrix_def)
  have dl: "dist_loss feat1 (data mask1) mean covariance ratio contrast_temp class_weight ignore_index
       = Inr (map2 (\<lambda>f y. dist_token_loss f y (mrows mean) (mrows covariance) ratio
                              contrast_temp class_weight)
                (mrows feat1) (data mask1))"
    using wf wm' wc' refl nc refl C len lab' temp cw by (rule dist_loss_tokens)
  have wr: "weight_reduce_loss (vector xs) None ''none'' None = Inr (vector xs)" for xs
    by (simp add: weight_reduce_loss_def apply_weight_def reduce_loss_def get_enum_def)
  have "dist_contrastive host feat mask0 (Some mean) (Some covariance) ratio contrast_temp num_classes
           None class_weight ''none'' None 0 ignore_index
       = Inr (vector (map2 (\<lambda>f y. dist_token_loss f y (mrows mean) (mrows covariance) ratio
                                     contrast_temp class_weight)
                       (mrows feat1) (data mask1)))"
    unfolding dist_contrastive_def prep ebind_Inr
    using some fg mg mng cvg g by (simp add: dl wr add_regularizer_def)
  with len show ?thesis by blast
qed

lemma ex_dprep:
  "contrast_preparations ex_dfeat ex_dmask 255
     = Inr (\<lparr>ncols = 1, mrows = [[1]], mgrad = True\<rparr>,
            \<lparr>shape = [1], data = [0], requires_grad = False\<rparr>)"
  by (simp add: contrast_preparations_def ex_dfeat_def ex_dmask_def last2_def tokens_def
      grid3_def select_def Let_def)

lemma ex_dterms:
  "dist_token_claimed [1] 0 (mrows ex_dmean) (mrows ex_dcov) 1 2 None
     - dist_token_loss [1] 0 (mrows ex_dmean) (mrows ex_dcov) 1 2 None = 1 / 8"
  by (simp add: dist_token_claimed_def dist_token_loss_def ex_dmean_def ex_dcov_def)

theorem dist_contrastive_token_loss_witness:
  "contrast_preparations ex_dfeat ex_dmask 255
     = Inr (\<lparr>ncols = 1, mrows = [[1]], mgrad = True\<rparr>,
            \<lparr>shape = [1], data = [0], requires_grad = False\<rparr>)
   \<and> dist_contrastive CudaReady ex_dfeat ex_dmask (Some ex_dmean) (Some ex_dcov) 1 2 2 None None ''none''
        None 0 255
      = Inr (vector [dist_token_loss [1] 0 (mrows ex_dmean) (mrows ex_dcov) 1 2 None])"
proof -
  have some: "mrows \<lparr>ncols = 1, mrows = [[1::real]], mgrad = True\<rparr> \<noteq> []" by simp
  have fg: "requires_grad ex_dfeat" by (simp add: ex_dfeat_def)
  have mg: "\<not> requires_grad \<lparr>shape = [1], data = [0::int], requires_grad = False\<rparr>" by simp
  have mng: "\<not> mgrad ex_dmean" and cvg: "\<not> mgrad ex_dcov"
    and wm: "wf_matrix ex_dmean" and wc: "wf_matrix ex_dcov"
    and nc: "ncols ex_dmean = ncols \<lparr>ncols = 1, mrows = [[1::real]], mgrad = True\<rparr>"
      "ncols ex_dcov = ncols \<lparr>ncols = 1, mrows = [[1::real]], mgrad = True\<rparr>"
    and C: "length (mrows ex_dcov) = length (mrows ex_dmean)"
    and lab: "\<forall>y \<in> set (data \<lparr>shape = [1], data = [0::int], requires_grad = False\<rparr>).
               0 \<le> y \<and> y < int (length (mrows ex_dmean))"
    by (simp_all add: ex_dmean_def ex_dcov_def wf_matrix_def)
  have temp: "(2::real) \<noteq> 0" by simp
  have cw: "case None :: real list option of None \<Rightarrow> True
            | Some w \<Rightarrow> length w = length (mrows ex_dmean)" by simp
  from dist_contrastive_token_loss[OF ex_dprep some fg mg mng cvg wm wc nc C lab temp cw, of CudaReady 1 2]
  have "dist_contrastive CudaReady ex_dfeat ex_dmask (Some ex_dmean) (Some ex_dcov) 1 2 2 None None ''none''
        None 0 255
      = Inr (vector [dist_token_loss [1] 0 (mrows ex_dmean) (mrows ex_dcov) 1 2 None])"
    by simp
  with ex_dprep show ?thesis by blast
qed

text \<open>
  With the covariance of the correction term taken unscaled, as the claim writes it,
  the value differs: for one token [1] of label 0, means 0, covariances 1, ratio 1
  and temperature 2 the claimed loss exceeds the computed one by 1/8.
\<close>

theorem dist_contrastive_token_loss_counterexample:
  "dist_contrastive CudaReady ex_dfeat ex_dmask (Some ex_dmean) (Some ex_dcov) 1 2 2 None None ''none''
        None 0 255
      \<noteq> Inr (vector [dist_token_claimed [1] 0 (mrows ex_dmean) (mrows ex_dcov) 1 2 None])"
proof -
  have "dist_contrastive CudaReady ex_dfeat ex_dmask (Some ex_dmean) (Some ex_dcov) 1 2 2 None None ''none''
        None 0 255
      = Inr (vector [dist_token_loss [1] 0 (mrows ex_dmean) (mrows ex_dcov) 1 2 None])"
    using dist_loss_tokens[where feat = "\<lparr>ncols = 1, mrows = [[1]], mgrad = True\<rparr>"
        and labels = "[0]" and mean = ex_dmean and covariance = ex_dcov and A = 1 and C = 2
        and contrast_temp = 2 and class_weight = None and ignore_index = 255 and ratio = 1]
    unfolding dist_contrastive_def ex_dprep ebind_Inr
    by (simp add: ex_dmean_def ex_dcov_def weight_reduce_loss_def apply_weight_def
        reduce_loss_def get_enum_def add_regularizer_def)
  moreover have "dist_token_loss [1] 0 (mrows ex_dmean) (mrows ex_dcov) 1 2 None
      \<noteq> dist_token_claimed [1] 0 (mrows ex_dmean) (mrows ex_dcov) 1 2 None"
    using ex_dterms by auto
  ultimately show ?thesis by (simp add: vector_def)
qed

lemma torch_cat0_ok:
  assumes "\<forall>m \<in> set ms. ncols m = A" and "concat (map mrows ms) \<noteq> []"
  shows "torch_cat0 ms = Inr \<lparr>ncols = A, mrows = concat (map mrows ms),
                          mgrad = (\<exists>x \<in> set ms. mgrad x)\<rparr>"
proof (cases ms)
  case Nil
  then show ?thesis using assms by simp
next
  case (Cons m rest)
  then show ?thesis using assms by (auto simp: torch_cat0_def)
qed

lemma bank_sim_ok:
  assumes ok: "bank_ok bank num_classes A" and idx: "idx < num_classes"
    and nc: "ncols cls_feat = A" and temp: "contrast_temp \<noteq> 0"
  shows "bank_sim cls_feat bank contrast_temp idx
     = Inr \<lparr>ncols = length (bank_rows bank idx),
            mrows = map (\<lambda>r. map (\<lambda>e. similarity r e contrast_temp) (bank_rows bank idx))
                      (mrows cls_feat),
            mgrad = (mgrad cls_feat \<or> (\<exists>x \<in> set (bank ! idx). mgrad x))\<rparr>"
proof -
  have lb: "\<not> length bank \<le> idx" using ok idx by (simp add: bank_ok_def)
  have "\<forall>m \<in> set (bank ! idx). ncols m = A" "concat (map mrows (bank ! idx)) \<noteq> []"
    using ok idx by (auto simp: bank_ok_def bank_rows_def)
  from torch_cat0_ok[OF this] have
    cat: "torch_cat0 (bank ! idx) = Inr \<lparr>ncols = A, mrows = bank_rows bank idx,
                                         mgrad = (\<exists>x \<in> set (bank ! idx). mgrad x)\<rparr>"
    unfolding bank_rows_def .
  show ?thesis
    unfolding bank_sim_def cat ebind_Inr
    using lb nc temp by (simp add: mm_t_def mdiv_def similarity_def[abs_def] comp_def)
qed

lemma negatives_steps:
  "negatives (map (\<lambda>idx. if idx = cls then Pos (p idx) else Neg (g idx)) xs)
     = map g (filter (\<lambda>idx. idx \<noteq> cls) xs)"
  by (induction xs) (auto simp: negatives_def)

lemma sum_list_neg: "sum_list (map (\<lambda>x. - g x) xs) = - sum_list (map g xs)" for g :: "'a \<Rightarrow> real"
  by (induction xs) auto

lemma bank_class_loss_value:
  assumes ok: "bank_ok bank num_classes A" and cls: "cls < num_classes"
    and nc: "ncols feat = A" and temp: "contrast_temp \<noteq> 0" and two: "2 \<le> num_classes"
    and len: "length labels = length (mrows feat)"
  shows "bank_class_loss feat labels bank contrast_temp num_classes cls
     = Inr (map (\<lambda>f. bank_token_loss f cls bank num_classes contrast_temp)
              (class_rows (mrows feat) labels cls))"
proof -
  let ?crow = "class_rows (mrows feat) labels cls"
  let ?B = "bank_rows bank"
  have sel: "select (map (\<lambda>t. t = int cls) labels) (mrows feat) = ?crow"
    unfolding class_rows_def using len by (intro select_filter) simp
  define cls_feat where "cls_feat = feat\<lparr>mrows := ?crow\<rparr>"
  have ncf: "ncols cls_feat = A" and rcf: "mrows cls_feat = ?crow"
    using nc by (simp_all add: cls_feat_def)
  define sim where "sim = (\<lambda>idx. \<lparr>ncols = length (?B idx),
      mrows = map (\<lambda>r. map (\<lambda>e. similarity r e contrast_temp) (?B idx)) ?crow,
      mgrad = (mgrad cls_feat \<or> (\<exists>x \<in> set (bank ! idx). mgrad x))\<rparr>)"
  define means where "means = (\<lambda>idx. map (\<lambda>r. neg_score r bank contrast_temp idx) ?crow)"
  have bs: "bank_sim cls_feat bank contrast_temp idx = Inr (sim idx)" if "idx < num_classes" for idx
    using bank_sim_ok[OF ok that ncf temp] by (simp add: sim_def rcf)
  have ne: "?B idx \<noteq> []" if "idx < num_classes" for idx
    using ok that by (simp add: bank_ok_def)
  have rm: "row_mean (sim idx) = Inr (means idx)" if "idx < num_classes" for idx
    using ne[OF that] by (simp add: row_mean_def sim_def means_def neg_score_def comp_def)
  have steps: "emap (\<lambda>idx. ebind (bank_sim cls_feat bank contrast_temp idx) (\<lambda>sim.
                        if idx = cls then Inr (Pos sim)
                        else ebind (row_mean sim) (\<lambda>m. Inr (Neg m))))
                  [0..<num_classes]
      = Inr (map (\<lambda>idx. if idx = cls then Pos (sim idx) else Neg (means idx)) [0..<num_classes])"
    by (intro emap_Inr) (simp add: bs rm)
  have pos: "map (\<lambda>idx. if idx = cls then Pos (sim idx) else Neg (means idx)) [0..<num_classes] ! cls
      = Pos (sim cls)"
    using cls by simp
  have neg: "negatives (map (\<lambda>idx. if idx = cls then Pos (sim idx) else Neg (means idx))
                          [0..<num_classes])
      = map means (filter (\<lambda>idx. idx \<noteq> cls) [0..<num_classes])"
    by (rule negatives_steps)
  have "\<exists>idx < num_classes. idx \<noteq> cls"
  proof (cases "cls = 0")
    case True
    then show ?thesis using two by (intro exI[of _ 1]) simp
  next
    case False
    then show ?thesis using two by (intro exI[of _ 0]) simp
  qed
  then have nne: "map means (filter (\<lambda>idx. idx \<noteq> cls) [0..<num_classes]) \<noteq> []"
    by (auto simp: filter_empty_conv)
  have npos: "\<not> (ncols (sim cls) = 0 \<and> mrows (sim cls) \<noteq> [])"
    using ne[OF cls] by (simp add: sim_def)
  have rows: "map (\<lambda>n.
                (let exp_pos = map exp (mrows (sim cls) ! n);
                     sum_exp_neg = sum_list (map (\<lambda>m. exp (m ! n))
                                      (map means (filter (\<lambda>idx. idx \<noteq> cls) [0..<num_classes])));
                     softmax_term = map (\<lambda>e. e / (e + sum_exp_neg)) exp_pos
                 in - (sum_list (map ln softmax_term) / real (ncols (sim cls)))))
              [0..<length (mrows (sim cls))]
      = map (\<lambda>f. bank_token_loss f cls bank num_classes contrast_temp) ?crow"
  proof (rule nth_equalityI)
    show "length (map (\<lambda>n.
                (let exp_pos = map exp (mrows (sim cls) ! n);
                     sum_exp_neg = sum_list (map (\<lambda>m. exp (m ! n))
                                      (map means (filter (\<lambda>idx. idx \<noteq> cls) [0..<num_classes])));
                     softmax_term = map (\<lambda>e. e / (e + sum_exp_neg)) exp_pos
                 in - (sum_list (map ln softmax_term) / real (ncols (sim cls)))))
              [0..<length (mrows (sim cls))])
      = length (map (\<lambda>f. bank_token_loss f cls bank num_classes contrast_temp) ?crow)"
      by (simp add: sim_def)
  next
    fix n
    assume "n < length (map (\<lambda>n.
                (let exp_pos = map exp (mrows (sim cls) ! n);
                     sum_exp_neg = sum_list (map (\<lambda>m. exp (m ! n))
                                      (map means (filter (\<lambda>idx. idx \<noteq> cls) [0..<num_classes])));
                     softmax_term = map (\<lambda>e. e / (e + sum_exp_neg)) exp_pos
                 in - (sum_list (map ln softmax_term) / real (ncols (sim cls)))))
              [0..<length (mrows (sim cls))])"
    then have n: "n < length ?crow" by (simp add: sim_def)
    have sn: "map (\<lambda>m. exp (m ! n)) (map means (filter (\<lambda>idx. idx \<noteq> cls) [0..<num_classes]))
        = map (\<lambda>idx. exp (neg_score (?crow ! n) bank contrast_temp idx))
            (filter (\<lambda>idx. idx \<noteq> cls) [0..<num_classes])"
      using n by (simp add: means_def)
    have "(let exp_pos = map exp (mrows (sim cls) ! n);
               sum_exp_neg = sum_list (map (\<lambda>m. exp (m ! n))
                                (map means (filter (\<lambda>idx. idx \<noteq> cls) [0..<num_classes])));
               softmax_term = map (\<lambda>e. e / (e + sum_exp_neg)) exp_pos
           in - (sum_list (map ln softmax_term) / real (ncols (sim cls))))
        = bank_token_loss (?crow ! n) cls bank num_classes contrast_temp"
      unfolding sn Let_def bank_token_loss_def
      using n by (simp add: sim_def comp_def sum_list_neg)
    then show "map (\<lambda>n.
                (let exp_pos = map exp (mrows (sim cls) ! n);
                     sum_exp_neg = sum_list (map (\<lambda>m. exp (m ! n))
                                      (map means (filter (\<lambda>idx. idx \<noteq> cls) [0..<num_classes])));
                     softmax_term = map (\<lambda>e. e / (e + sum_exp_neg)) exp_pos
                 in - (sum_list (map ln softmax_term) / real (ncols (sim cls)))))
              [0..<length (mrows (sim cls))] ! n
      = map (\<lambda>f. bank_token_loss f cls bank num_classes contrast_temp) ?crow ! n"
      using n by (simp add: sim_def comp_def)
  qed
  show ?thesis
    unfolding bank_class_loss_def Let_def sel cls_feat_def[symmetric] steps ebind_Inr pos
      sim_result.case neg
    by (simp only: nne npos rows[unfolded Let_def] if_False)
qed

lemma bank_loss_value:
  assumes ok: "bank_ok bank num_classes A"
    and nc: "ncols feat = A" and temp: "contrast_temp \<noteq> 0" and two: "2 \<le> num_classes"
    and len: "length labels = length (mrows feat)"
  shows "bank_loss feat labels bank contrast_temp num_classes
     = Inr (bank_losses (mrows feat) labels bank num_classes contrast_temp)"
proof -
  have "emap (bank_class_loss feat labels bank contrast_temp num_classes) [0..<num_classes]
      = Inr (map (\<lambda>cls. map (\<lambda>f. bank_token_loss f cls bank num_classes contrast_temp)
                          (class_rows (mrows feat) labels cls))
               [0..<num_classes])"
    using bank_class_loss_value[OF ok _ nc temp two len] by (intro emap_Inr) simp
  moreover have "[0..<num_classes] \<noteq> []" using two by simp
  ultimately show ?thesis
    by (simp add: bank_loss_def bank_losses_def)
qed

lemma length_class_rows:
  "length rows = length labels \<Longrightarrow>
   length (class_rows rows labels cls) = length (filter (\<lambda>y. y = int cls) labels)"
  by (induction rows labels rule: list_induct2) (auto simp: class_rows_def)

lemma length_in_range:
  "length (filter (\<lambda>y. 0 \<le> y \<and> y < int (Suc n)) ls)
     = length (filter (\<lambda>y. 0 \<le> y \<and> y < int n) ls) + length (filter (\<lambda>y. y = int n) ls)"
  by (induction ls) auto

lemma length_bank_losses:
  assumes "length rows = length labels"
  shows "length (bank_losses rows labels bank num_classes contrast_temp)
       = length (filter (\<lambda>y. 0 \<le> y \<and> y < int num_classes) labels)"
proof -
  have "length (concat (map (\<lambda>cls. map (g cls) (class_rows rows labels cls)) [0..<n]))
       = length (filter (\<lambda>y. 0 \<le> y \<and> y < int n) labels)" for g :: "nat \<Rightarrow> real list \<Rightarrow> real" and n
  proof (induction n)
    case 0
    then show ?case by simp
  next
    case (Suc n)
    then show ?case
      using length_class_rows[OF assms, of n] length_in_range[of n labels] by simp
  qed
  from this[of "\<lambda>cls f. bank_token_loss f cls bank num_classes contrast_temp" num_classes]
  show ?thesis unfolding bank_losses_def by simp
qed

lemma bank_token_loss_nonneg: "0 \<le> bank_token_loss f cls bank num_classes contrast_temp"
proof -
  define S where "S = sum_list (map (\<lambda>idx. exp (neg_score f bank contrast_temp idx))
                                 (filter (\<lambda>idx. idx \<noteq> cls) [0..<num_classes]))"
  have S: "0 \<le> S" unfolding S_def by (intro sum_list_nonneg) auto
  have "0 \<le> - ln (exp s / (exp s + S))" for s :: real
  proof -
    have "0 < exp s / (exp s + S)" using S by (simp add: add_pos_nonneg)
    moreover have "exp s / (exp s + S) \<le> 1" using S by (simp add: add_pos_nonneg)
    ultimately have "ln (exp s / (exp s + S)) \<le> 0" by simp
    then show ?thesis by simp
  qed
  then have "0 \<le> sum_list (map (\<lambda>e. - ln (exp (similarity f e contrast_temp)
                              / (exp (similarity f e contrast_temp) + S)))
                   (bank_rows bank cls))"
    by (intro sum_list_nonneg) auto
  then show ?thesis
    unfolding bank_token_loss_def S_def by (intro divide_nonneg_nonneg) auto
qed

lemma bank_losses_nonneg: "\<forall>x \<in> set (bank_losses rows labels bank num_classes contrast_temp). 0 \<le> x"
  by (auto simp: bank_losses_def bank_token_loss_nonneg)

lemma bank_contrastive_none:
  assumes prep: "contrast_preparations feat mask0 ignore_index = Inr (feat1, mask1)"
    and some: "mrows feat1 \<noteq> []"
    and fg: "requires_grad feat" and mg: "\<not> requires_grad mask1"
    and ok: "bank_ok bank num_classes (ncols feat1)"
    and temp: "contrast_temp \<noteq> 0" and two: "2 \<le> num_classes"
  shows "bank_contrastive host feat mask0 (Some bank) mean contrast_temp num_classes None ''none''
           None 0 ignore_index
       = Inr (vector (bank_losses (mrows feat1) (data mask1) bank num_classes contrast_temp))
    \<and> length (bank_losses (mrows feat1) (data mask1) bank num_classes contrast_temp)
       = length (filter (\<lambda>y. 0 \<le> y \<and> y < int num_classes) (data mask1))
    \<and> length (data mask1) = length (mrows feat1)"
proof -
  from prep_wf[OF prep]
  have len: "length (data mask1) = length (mrows feat1)"
    and g: "mgrad feat1 = requires_grad feat"
    by blast+
  have bl: "bank_loss feat1 (data mask1) bank contrast_temp num_classes
     = Inr (bank_losses (mrows feat1) (data mask1) bank num_classes contrast_temp)"
    using ok refl temp two len by (rule bank_loss_value)
  have wr: "weight_reduce_loss (vector xs) None ''none'' None = Inr (vector xs)" for xs
    by (simp add: weight_reduce_loss_def apply_weight_def reduce_loss_def get_enum_def)
  have "bank_contrastive host feat mask0 (Some bank) mean contrast_temp num_classes None ''none''
           None 0 ignore_index
       = Inr (vector (bank_losses (mrows feat1) (data mask1) bank num_classes contrast_temp))"
    unfolding bank_contrastive_def prep ebind_Inr
    using some fg mg g by (simp add: bl wr add_regularizer_def)
  moreover have "length (bank_losses (mrows feat1) (data mask1) bank num_classes contrast_temp)
       = length (filter (\<lambda>y. 0 \<le> y \<and> y < int num_classes) (data mask1))"
    using len by (intro length_bank_losses) simp
  ultimately show ?thesis using len by blast
qed

text \<open>
  Claim C2, as amended. With at least two classes, a bank that holds at least one
  exemplar row for every class (well-formed, of the features' width), a non-zero
  temperature and every surviving label among the classes, the unreduced loss of
  \<^verbatim>\<open>bank_contrastive\<close> has one entry per surviving token, arranged by class (the
  tokens of class 0 first, in their original order, then class 1, and so on); the
  entry of a token is the mean over its positive exemplars of
  \<open>- ln (exp pos / (exp pos + \<Sum> exp neg))\<close>, the negatives being the mean similarities
  to the exemplars of the other classes, all similarities temperature-divided dot
  products (\<open>bank_token_loss\<close>); and every entry is non-negative.
\<close>

theorem bank_contrastive_class_order:
  assumes prep: "contrast_preparations feat mask0 ignore_index = Inr (feat1, mask1)"
    and some: "mrows feat1 \<noteq> []"
    and fg: "requires_grad feat" and mg: "\<not> requires_grad mask1"
    and ok: "bank_ok bank num_classes (ncols feat1)"
    and temp: "contrast_temp \<noteq> 0" and two: "2 \<le> num_classes"
    and lab: "\<forall>y \<in> set (data mask1). 0 \<le> y \<and> y < int num_classes"
  shows "bank_contrastive host feat mask0 (Some bank) mean contrast_temp num_classes None ''none''
           None 0 ignore_index
       = Inr (vector (bank_losses (mrows feat1) (data mask1) bank num_classes contrast_temp))
    \<and> bank_losses (mrows feat1) (data mask1) bank num_classes contrast_temp
       = concat (map (\<lambda>cls. map (\<lambda>f. bank_token_loss f cls bank num_classes contrast_temp)
                              (class_rows (mrows feat1) (data mask1) cls))
                   [0..<num_classes])
    \<and> length (bank_losses (mrows feat1) (data mask1) bank num_classes contrast_temp)
       = length (mrows feat1)
    \<and> (\<forall>x \<in> set (bank_losses (mrows feat1) (data mask1) bank num_classes contrast_temp).
          0 \<le> x)"
proof -
  from bank_contrastive_none[OF prep some fg mg ok temp two, of host mean]
  have r: "bank_contrastive host feat mask0 (Some bank) mean contrast_temp num_classes None ''none''
           None 0 ignore_index
       = Inr (vector (bank_losses (mrows feat1) (data mask1) bank num_classes contrast_temp))"
    and l: "length (bank_losses (mrows feat1) (data mask1) bank num_classes contrast_temp)
       = length (filter (\<lambda>y. 0 \<le> y \<and> y < int num_classes) (data mask1))"
    and n: "length (data mask1) = length (mrows feat1)"
    by blast+
  have "filter (\<lambda>y. 0 \<le> y \<and> y < int num_classes) (data mask1) = data mask1"
    using lab by (intro filter_True) blast
  with l n have "length (bank_losses (mrows feat1) (data mask1) bank num_classes contrast_temp)
       = length (mrows feat1)" by simp
  with r bank_losses_nonneg[of "mrows feat1" "data mask1" bank num_classes contrast_temp]
  show ?thesis by (simp add: bank_losses_def)
qed

text \<open>
  Tokens whose label is no class enter no class group: the loop of lines 391 to 412
  gives the same result, value or error, with and without them.
\<close>

lemma emap_cong: "(\<And>x. x \<in> set xs \<Longrightarrow> f x = g x) \<Longrightarrow> emap f xs = emap g xs"
  by (induction xs) simp_all

lemma select_in_range:
  assumes "length rows = length labels" and "cls < num_classes"
  shows "select (map (\<lambda>t. t = int cls) (select (map (\<lambda>y. 0 \<le> y \<and> y < int num_classes) labels) labels))
           (select (map (\<lambda>y. 0 \<le> y \<and> y < int num_classes) labels) rows)
       = select (map (\<lambda>t. t = int cls) labels) rows"
  using assms by (induction rows labels rule: list_induct2) (auto simp: select_def)

lemma bank_loss_in_range:
  assumes len: "length labels = length (mrows feat)"
  shows "bank_loss (feat\<lparr>mrows := select (map (\<lambda>y. 0 \<le> y \<and> y < int num_classes) labels) (mrows feat)\<rparr>)
           (select (map (\<lambda>y. 0 \<le> y \<and> y < int num_classes) labels) labels)
           bank contrast_temp num_classes
       = bank_loss feat labels bank contrast_temp num_classes"
proof -
  have "bank_class_loss
           (feat\<lparr>mrows := select (map (\<lambda>y. 0 \<le> y \<and> y < int num_classes) labels) (mrows feat)\<rparr>)
           (select (map (\<lambda>y. 0 \<le> y \<and> y < int num_classes) labels) labels)
           bank contrast_temp num_classes cls
       = bank_class_loss feat labels bank contrast_temp num_classes cls"
    if "cls \<in> set [0..<num_classes]" for cls
  proof -
    from that have c: "cls < num_classes" by simp
    show ?thesis
      unfolding bank_class_loss_def Let_def
      using select_in_range[OF len[symmetric] c] by simp
  qed
  then have "emap (bank_class_loss
           (feat\<lparr>mrows := select (map (\<lambda>y. 0 \<le> y \<and> y < int num_classes) labels) (mrows feat)\<rparr>)
           (select (map (\<lambda>y. 0 \<le> y \<and> y < int num_classes) labels) labels)
           bank contrast_temp num_classes) [0..<num_classes]
      = emap (bank_class_loss feat labels bank contrast_temp num_classes) [0..<num_classes]"
    by (rule emap_cong)
  then show ?thesis unfolding bank_loss_def by simp
qed

text \<open>
  Claim C9. Under the same conditions on the bank, when some surviving label is
  outside the classes, no error is raised: the unreduced loss is the loss of the
  tokens whose label is a class (the loop gives the same result without the other
  tokens), so it has strictly fewer entries than surviving tokens.
\<close>

theorem bank_contrastive_omits_out_of_range:
  assumes prep: "contrast_preparations feat mask0 ignore_index = Inr (feat1, mask1)"
    and some: "mrows feat1 \<noteq> []"
    and fg: "requires_grad feat" and mg: "\<not> requires_grad mask1"
    and ok: "bank_ok bank num_classes (ncols feat1)"
    and temp: "contrast_temp \<noteq> 0" and two: "2 \<le> num_classes"
    and out: "\<exists>y \<in> set (data mask1). y < 0 \<or> int num_classes \<le> y"
  shows "bank_contrastive host feat mask0 (Some bank) mean contrast_temp num_classes None ''none''
           None 0 ignore_index
       = Inr (vector (bank_losses (mrows feat1) (data mask1) bank num_classes contrast_temp))
    \<and> length (bank_losses (mrows feat1) (data mask1) bank num_classes contrast_temp)
       = length (filter (\<lambda>y. 0 \<le> y \<and> y < int num_classes) (data mask1))
    \<and> length (bank_losses (mrows feat1) (data mask1) bank num_classes contrast_temp)
       < length (mrows feat1)
    \<and> bank_loss
         (feat1\<lparr>mrows := select (map (\<lambda>y. 0 \<le> y \<and> y < int num_classes) (data mask1))
                             (mrows feat1)\<rparr>)
         (select (map (\<lambda>y. 0 \<le> y \<and> y < int num_classes) (data mask1)) (data mask1))
         bank contrast_temp num_classes
       = bank_loss feat1 (data mask1) bank contrast_temp num_classes"
proof -
  from bank_contrastive_none[OF prep some fg mg ok temp two, of host mean]
  have r: "bank_contrastive host feat mask0 (Some bank) mean contrast_temp num_classes None ''none''
           None 0 ignore_index
       = Inr (vector (bank_losses (mrows feat1) (data mask1) bank num_classes contrast_temp))"
    and l: "length (bank_losses (mrows feat1) (data mask1) bank num_classes contrast_temp)
       = length (filter (\<lambda>y. 0 \<le> y \<and> y < int num_classes) (data mask1))"
    and n: "length (data mask1) = length (mrows feat1)"
    by blast+
  from out obtain y where "y \<in> set (data mask1)" "\<not> (0 \<le> y \<and> y < int num_classes)"
    by auto
  then have "length (filter (\<lambda>y. 0 \<le> y \<and> y < int num_classes) (data mask1)) < length (data mask1)"
    by (rule length_filter_less)
  with l n have "length (bank_losses (mrows feat1) (data mask1) bank num_classes contrast_temp)
       < length (mrows feat1)" by simp
  with r l bank_loss_in_range[OF n, of num_classes bank contrast_temp] show ?thesis by blast
qed

lemma ex_bank_ok: "bank_ok ex_bank3 3 1" "bank_ok ex_bank2 2 1" "bank_ok ex_bank1 1 1"
  by (simp_all add: bank_ok_def ex_bank3_def ex_bank2_def ex_bank1_def bank_rows_def wf_matrix_def
      ex_exemplar_def All_less_Suc eval_nat_numeral)

lemma ex_flags:
  "mrows ex_feat1 \<noteq> []" "requires_grad ex_feat" "\<not> requires_grad ex_mask1" "ncols ex_feat1 = 1"
  "data ex_mask1 = [0, 1, 2]" "length (mrows ex_feat1) = 3"
  by (simp_all add: ex_feat1_def ex_feat_def ex_mask1_def)

theorem bank_contrastive_class_order_witness:
  "contrast_preparations ex_feat ex_mask 255 = Inr (ex_feat1, ex_mask1)
   \<and> bank_ok ex_bank3 3 1
   \<and> bank_contrastive CudaReady ex_feat ex_mask (Some ex_bank3) None 100 3 None ''none'' None 0 255
       = Inr (vector (bank_losses (mrows ex_feat1) (data ex_mask1) ex_bank3 3 100))
   \<and> length (bank_losses (mrows ex_feat1) (data ex_mask1) ex_bank3 3 100) = 3"
proof -
  have ok: "bank_ok ex_bank3 3 (ncols ex_feat1)" using ex_bank_ok(1) ex_flags(4) by simp
  have temp: "(100::real) \<noteq> 0" and two: "(2::nat) \<le> 3" by simp_all
  have lab: "\<forall>y \<in> set (data ex_mask1). 0 \<le> y \<and> y < int 3" by (simp add: ex_flags(5))
  from bank_contrastive_class_order[OF ex_prep ex_flags(1,2,3) ok temp two lab, of CudaReady None]
  have r: "bank_contrastive CudaReady ex_feat ex_mask (Some ex_bank3) None 100 3 None ''none'' None 0 255
       = Inr (vector (bank_losses (mrows ex_feat1) (data ex_mask1) ex_bank3 3 100))"
    and l: "length (bank_losses (mrows ex_feat1) (data ex_mask1) ex_bank3 3 100)
       = length (mrows ex_feat1)"
    by blast+
  from l ex_flags(6)
  have "length (bank_losses (mrows ex_feat1) (data ex_mask1) ex_bank3 3 100) = 3" by (rule trans)
  with ex_prep ex_bank_ok(1) r show ?thesis by blast
qed

theorem bank_contrastive_omits_out_of_range_witness:
  "contrast_preparations ex_feat ex_mask 255 = Inr (ex_feat1, ex_mask1)
   \<and> data ex_mask1 = [0, 1, 2] \<and> length (mrows ex_feat1) = 3
   \<and> bank_ok ex_bank2 2 1
   \<and> bank_contrastive CudaReady ex_feat ex_mask (Some ex_bank2) None 100 2 None ''none'' None 0 255
       = Inr (vector (bank_losses (mrows ex_feat1) (data ex_mask1) ex_bank2 2 100))
   \<and> length (bank_losses (mrows ex_feat1) (data ex_mask1) ex_bank2 2 100) = 2"
proof -
  have ok: "bank_ok ex_bank2 2 (ncols ex_feat1)" using ex_bank_ok(2) ex_flags(4) by simp
  have temp: "(100::real) \<noteq> 0" and two: "(2::nat) \<le> 2" by simp_all
  have out: "\<exists>y \<in> set (data ex_mask1). y < 0 \<or> int 2 \<le> y" by (simp add: ex_flags(5))
  from bank_contrastive_omits_out_of_range[OF ex_prep ex_flags(1,2,3) ok temp two out, of CudaReady None]
  have r: "bank_contrastive CudaReady ex_feat ex_mask (Some ex_bank2) None 100 2 None ''none'' None 0 255
       = Inr (vector (bank_losses (mrows ex_feat1) (data ex_mask1) ex_bank2 2 100))"
    and l: "length (bank_losses (mrows ex_feat1) (data ex_mask1) ex_bank2 2 100)
       = length (filter (\<lambda>y. 0 \<le> y \<and> y < int 2) (data ex_mask1))"
    by blast+
  have "length (filter (\<lambda>y. 0 \<le> y \<and> y < int 2) (data ex_mask1)) = 2"
    by (simp add: ex_flags(5))
  with l have "length (bank_losses (mrows ex_feat1) (data ex_mask1) ex_bank2 2 100) = 2"
    by (rule trans)
  with ex_prep ex_bank_ok(2) ex_flags(5,6) r show ?thesis by blast
qed

text \<open>
  With a single class there is no negative, and the concatenation of the empty list
  of negatives raises: one token of class 0 and a bank with one exemplar of class 0.
\<close>

theorem bank_contrastive_class_order_counterexample:
  "contrast_preparations ex_dfeat ex_dmask 255
     = Inr (\<lparr>ncols = 1, mrows = [[1]], mgrad = True\<rparr>,
            \<lparr>shape = [1], data = [0], requires_grad = False\<rparr>)
   \<and> bank_ok ex_bank1 1 1
   \<and> bank_contrastive CudaReady ex_dfeat ex_dmask (Some ex_bank1) None 100 1 None ''none'' None 0 255
       = Inl RuntimeError"
proof -
  have "bank_loss \<lparr>ncols = 1, mrows = [[1]], mgrad = True\<rparr> [0] ex_bank1 100 1 = Inl RuntimeError"
    by (simp add: bank_loss_def bank_class_loss_def bank_sim_def torch_cat0_def mm_t_def mdiv_def
        ex_bank1_def ex_exemplar_def select_def negatives_def Let_def)
  then have "bank_contrastive CudaReady ex_dfeat ex_dmask (Some ex_bank1) None 100 1 None ''none'' None 0 255
       = Inl RuntimeError"
    unfolding bank_contrastive_def ex_dprep ebind_Inr by simp
  with ex_dprep ex_bank_ok(3) show ?thesis by blast
qed

end
